theory Spec2Isabelle
  imports Complex_Main "HOL-Library.Sublist"
begin

section \<open>Python values\<close>

text \<open>
  A Python \<open>str\<close> is a sequence of Unicode code points: \<open>len\<close>, indexing, slicing and
  \<open>count\<close> all work on code points. The model keeps that: a string is the list of its code
  points. \<open>S\<close> turns an ASCII literal into such a list; a code point outside ASCII is
  written as a number.
\<close>

type_synonym pystr = "nat list"

definition S :: "string \<Rightarrow> pystr" where
  "S cs = map of_char cs"

text \<open>A raised exception, with the text that \<open>str(e)\<close> gives.\<close>

datatype py_error =
  IndexError pystr | KeyError pystr | TypeError pystr | AttributeError pystr | OtherError pystr

fun str_of_error :: "py_error \<Rightarrow> pystr" where
  "str_of_error (IndexError m) = m"
| "str_of_error (KeyError m) = m"
| "str_of_error (TypeError m) = m"
| "str_of_error (AttributeError m) = m"
| "str_of_error (OtherError m) = m"

text \<open>
  The code points that \<open>str.strip()\<close> and \<open>str.split()\<close> treat as whitespace
  (the table of CPython's \<open>str.isspace\<close>).
\<close>

definition is_space :: "nat \<Rightarrow> bool" where
  "is_space c =
     ((9 \<le> c \<and> c \<le> 13) \<or> (28 \<le> c \<and> c \<le> 32) \<or> c = 133 \<or> c = 160 \<or> c = 5760
      \<or> (8192 \<le> c \<and> c \<le> 8202) \<or> c = 8232 \<or> c = 8233 \<or> c = 8239 \<or> c = 8287
      \<or> c = 12288)"

definition strip :: "pystr \<Rightarrow> pystr" where
  "strip s = rev (dropWhile is_space (rev (dropWhile is_space s)))"

text \<open>\<open>str(n)\<close> for a non-negative integer: its decimal digits.\<close>

function str_nat :: "nat \<Rightarrow> pystr" where
  "str_nat n = (if n < 10 then [48 + n] else str_nat (n div 10) @ [48 + n mod 10])"
  by pat_completeness auto
termination
  by (relation "measure id") auto

declare str_nat.simps [simp del]

text \<open>\<open>xs[-k:]\<close> for a positive \<open>k\<close>: the last \<open>k\<close> elements, all of \<open>xs\<close> when it is shorter.\<close>

definition last_n :: "nat \<Rightarrow> 'a list \<Rightarrow> 'a list" where
  "last_n k xs = drop (length xs - k) xs"

text \<open>\<open>s[0]\<close>: raises IndexError on the empty string.\<close>

definition index0 :: "'a list \<Rightarrow> py_error + 'a" where
  "index0 xs =
     (case xs of [] \<Rightarrow> Inl (IndexError (S ''string index out of range'')) | x # _ \<Rightarrow> Inr x)"

text \<open>
  A value as \<open>json.load\<close> returns it and \<open>json.dump\<close>, \<open>jsonify\<close> take it. An object is a
  Python dict: its keys, all different, in insertion order. The code never looks inside a
  number.
\<close>

datatype json =
  JNull | JBool bool | JNumber rat | JString pystr | JArray "json list"
  | JObject "(pystr \<times> json) list"

text \<open>\<open>sep.join(xs)\<close>\<close>

fun py_join :: "pystr \<Rightarrow> pystr list \<Rightarrow> pystr" where
  "py_join sep [] = []"
| "py_join sep [x] = x"
| "py_join sep (x # y # ys) = x @ sep @ py_join sep (y # ys)"

text \<open>
  \<open>s.split()\<close>: the maximal runs of non-whitespace characters. The second argument is the
  run being read.
\<close>

fun split_ws :: "pystr \<Rightarrow> pystr \<Rightarrow> pystr list" where
  "split_ws [] cur = (if cur = [] then [] else [cur])"
| "split_ws (c # cs) cur =
     (if is_space c then (if cur = [] then split_ws cs [] else cur # split_ws cs [])
      else split_ws cs (cur @ [c]))"

definition py_split :: "pystr \<Rightarrow> pystr list" where
  "py_split s = split_ws s []"

text \<open>
  \<open>s.split(maxsplit=1)\<close>: the first run of non-whitespace characters and, when something
  other than whitespace follows it, the rest of the string from there on (trailing
  whitespace included).
\<close>

definition split_maxsplit1 :: "pystr \<Rightarrow> pystr list" where
  "split_maxsplit1 s =
     (let s1 = dropWhile is_space s;
          tok = takeWhile (\<lambda>c. \<not> is_space c) s1;
          rest = dropWhile is_space (dropWhile (\<lambda>c. \<not> is_space c) s1)
      in if s1 = [] then [] else if rest = [] then [tok] else [tok, rest])"

text \<open>\<open>p in s\<close> for two strings: \<open>p\<close> occurs in \<open>s\<close> as a contiguous run.\<close>

fun py_in :: "pystr \<Rightarrow> pystr \<Rightarrow> bool" where
  "py_in p [] = (p = [])"
| "py_in p (c # cs) = (prefix p (c # cs) \<or> py_in p cs)"

text \<open>\<open>s.startswith(p)\<close>\<close>

definition startswith :: "pystr \<Rightarrow> pystr \<Rightarrow> bool" where
  "startswith s p = (take (length p) s = p)"

text \<open>
  \<open>random.choice(xs)\<close>, with the index that the generator draws given as \<open>k\<close>
  (reduced modulo the length, so that every \<open>k\<close> stands for a possible draw).
\<close>

definition random_choice :: "nat \<Rightarrow> 'a list \<Rightarrow> py_error + 'a" where
  "random_choice k xs =
     (if xs = [] then Inl (IndexError (S ''Cannot choose from an empty sequence''))
      else Inr (xs ! (k mod length xs)))"

section \<open>The server variant (app.py): storage\<close>

definition MAX_HISTORY_LENGTH :: nat where "MAX_HISTORY_LENGTH = 100"
definition CONTEXT_WINDOW :: nat where "CONTEXT_WINDOW = 8"
definition MAX_MESSAGE_LENGTH :: nat where "MAX_MESSAGE_LENGTH = 2000"

text \<open>
  An entry of a conversation, as \<open>save_message\<close> builds it: a dict with the four keys
  \<open>id\<close>, \<open>role\<close>, \<open>message\<close>, \<open>timestamp\<close>. Nothing else ever writes into
  \<open>conversations\<close>, so every stored entry has all four.
\<close>

record message =
  msg_id :: pystr
  role :: pystr
  message :: pystr
  timestamp :: pystr

text \<open>The module-level dict \<open>conversations\<close>, passed explicitly.\<close>

type_synonym conversations = "pystr \<rightharpoonup> message list"

text \<open>Its value when the module is loaded: \<open>{}\<close>.\<close>

definition no_conversations :: conversations where
  "no_conversations = Map.empty"

text \<open>\<open>conversations.get(conversation_id, [])\<close>\<close>

definition get_msgs :: "conversations \<Rightarrow> pystr \<Rightarrow> message list" where
  "get_msgs conversations cid = (case conversations cid of None \<Rightarrow> [] | Some msgs \<Rightarrow> msgs)"

text \<open>
  \<open>save_message\<close>. The two values it takes from the environment, \<open>str(uuid.uuid4())\<close> and
  \<open>datetime.now().strftime('%I:%M %p')\<close>, are arguments \<open>new_id\<close> and \<open>now\<close>.
  The slice \<open>[-MAX_HISTORY_LENGTH+1:]\<close> is \<open>[-99:]\<close>.
\<close>

definition save_message ::
  "conversations \<Rightarrow> pystr \<Rightarrow> pystr \<Rightarrow> pystr \<Rightarrow> pystr \<Rightarrow> pystr \<Rightarrow> conversations" where
  "save_message conversations cid rl msg new_id now =
     (let c1 = (if conversations cid = None then conversations(cid \<mapsto> []) else conversations);
          c2 = (if length (get_msgs c1 cid) \<ge> MAX_HISTORY_LENGTH
                then c1(cid \<mapsto> last_n (MAX_HISTORY_LENGTH - 1) (get_msgs c1 cid))
                else c1)
      in c2(cid \<mapsto> get_msgs c2 cid @
            [\<lparr>msg_id = new_id, role = rl, message = msg, timestamp = now\<rparr>]))"

text \<open>
  One append as the caller sees it: the role, the text and the two environment values.
  \<open>save_all\<close> is a run of appends to one session, in order.
\<close>

record append_args =
  a_role :: pystr
  a_text :: pystr
  a_id :: pystr
  a_now :: pystr

definition entry_of :: "append_args \<Rightarrow> message" where
  "entry_of a = \<lparr>msg_id = a_id a, role = a_role a, message = a_text a, timestamp = a_now a\<rparr>"

fun save_all :: "conversations \<Rightarrow> pystr \<Rightarrow> append_args list \<Rightarrow> conversations" where
  "save_all conversations cid [] = conversations"
| "save_all conversations cid (a # as) =
     save_all (save_message conversations cid (a_role a) (a_text a) (a_id a) (a_now a)) cid as"

section \<open>The server variant: validation\<close>

text \<open>
  \<open>validate_message\<close>. The spam test of the source is
  \<open>message.count(message[0]) > len(message) * 0.8\<close>, a comparison of an integer with a
  double. For every length the length check lets through (at most 2000) the double
  \<open>len * 0.8\<close> is the exact value \<open>4 * len / 5\<close> when that is an integer (the product
  with the double nearest to 0.8 is off by less than half a unit in the last place) and is
  at least 0.2 away from every integer otherwise, so the comparison is the exact
  \<open>5 * count > 4 * len\<close>, which is what the model computes.
  The indexing \<open>message[0]\<close> is kept as an operation that can raise.
\<close>

definition validate_message :: "pystr \<Rightarrow> py_error + (bool \<times> pystr option)" where
  "validate_message msg =
     (if msg = [] \<or> strip msg = [] then
        Inr (False, Some (S ''Please type a message!''))
      else if length msg > MAX_MESSAGE_LENGTH then
        Inr (False, Some (S ''Message too long! Maximum '' @ str_nat MAX_MESSAGE_LENGTH
                          @ S '' characters.''))
      else
        (case index0 msg of
           Inl e \<Rightarrow> Inl e
         | Inr c \<Rightarrow>
             if 5 * count_list msg c > 4 * length msg then
               Inr (False, Some (S ''Message appears to be spam.''))
             else Inr (True, None)))"

text \<open>
  The reading of the specification: some single character accounts for more than 80% of
  the characters of the message.
\<close>

definition dominated :: "pystr \<Rightarrow> bool" where
  "dominated msg = list_ex (\<lambda>c. 5 * count_list msg c > 4 * length msg) msg"

text \<open>What the code tests: the first character accounts for more than 80% of them.\<close>

definition first_char_dominates :: "pystr \<Rightarrow> bool" where
  "first_char_dominates msg =
     (case msg of [] \<Rightarrow> False | c # _ \<Rightarrow> 5 * count_list msg c > 4 * length msg)"


section \<open>The server variant: environment\<close>

text \<open>One entry of the \<open>messages\<close> list sent to the model: \<open>{"role": .., "content": ..}\<close>.\<close>

record chat_msg =
  c_role :: pystr
  content :: pystr

text \<open>
  The dict that \<open>export_conversation\<close> serialises.
\<close>

record export_data =
  e_conversation_id :: pystr
  e_export_time :: pystr
  e_message_count :: nat
  e_messages :: "message list"

text \<open>
  Everything one request takes from outside the repository's code: library functions
  (\<open>str.lower\<close>, \<open>re.search\<close> with \<open>re.IGNORECASE\<close>, \<open>json.dumps\<close>), the OpenAI client,
  and the values read from the clock, from \<open>uuid.uuid4\<close> and from \<open>random.choice\<close>, one
  field for each place of \<open>get_response\<close> that reads one, in program order:
  \<^item> \<open>client\<close> is \<open>None\<close> when no API key is configured; otherwise it maps the
    \<open>messages\<close> argument of \<open>client.chat.completions.create\<close> to
    \<open>response.choices[0].message.content\<close>, or to \<open>Inl e\<close> when the call, or reading its
    result, raises (a timeout, a transport or authentication failure, an empty result);
  \<^item> \<open>now_reply\<close> is \<open>datetime.now().strftime(fmt)\<close> as read while the reply text is built
    (at most one such read happens in a request), \<open>now_iso\<close> is
    \<open>datetime.now().isoformat()\<close> there;
  \<^item> \<open>draw_response\<close> and \<open>draw_joke\<close> are the draws of \<open>random.choice\<close> among the
    responses of an intent and among the jokes;
  \<^item> \<open>uuid_user\<close>, \<open>now_user\<close>, \<open>uuid_bot\<close>, \<open>now_bot\<close> are the id and the
    \<open>'%I:%M %p'\<close> time of the two \<open>save_message\<close> calls, \<open>now_response\<close> the time put
    into the JSON answer;
  \<^item> \<open>debug\<close> is \<open>app.debug\<close>.
\<close>

record env =
  lower :: "pystr \<Rightarrow> pystr"
  re_search :: "pystr \<Rightarrow> pystr \<Rightarrow> bool"
  json_dumps :: "export_data \<Rightarrow> py_error + pystr"
  client :: "(chat_msg list \<Rightarrow> py_error + pystr) option"
  now_reply :: "pystr \<Rightarrow> pystr"
  now_iso :: pystr
  draw_response :: nat
  draw_joke :: nat
  uuid_user :: pystr
  now_user :: pystr
  uuid_bot :: pystr
  now_bot :: pystr
  now_response :: pystr
  debug :: bool

section \<open>The server variant: intent detection\<close>

text \<open>
  A response of an intent is a string or a \<open>lambda\<close> without arguments; \<open>get_response\<close>
  tells them apart with \<open>callable\<close>.
\<close>

datatype response_item = Text pystr | Callable "env \<Rightarrow> py_error + pystr"

record intent_data =
  patterns :: "pystr list"
  responses :: "response_item list"
  confidence :: "rat option"

definition jokes :: "pystr list" where
  "jokes =
    [S ''Why do programmers prefer dark mode? Because light attracts '' @ S ''bugs! ''
       @ [128027],
     S ''Why did the programmer quit his job? Because he didn't get a'' @ S ''rrays. ''
       @ [128202],
     S ''How many programmers does it take to change a light bulb? None '' @ [8212]
       @ S '' it's a hardware problem. '' @ [128161],
     S ''Why do Java developers wear glasses? Because they can't C#! '' @ [128083],
     S ''What's a programmer's favorite hangout place? Foo Bar! '' @ [127866],
     S ''Why did the developer go broke? Because he used up all his c'' @ S ''ache! ''
       @ [128176],
     S ''What do you call a programmer from Finland? Nerdic! '' @ [127467, 127470],
     S ''Why do Python programmers have low self-esteem? They're cons''
       @ S ''tantly comparing themselves to others! '' @ [128013],
     S ''What's the object-oriented way to become wealthy? Inheritance! '' @ [128142],
     S ''Why did the variable break up with the constant? She needed '' @ S ''some space! ''
       @ [128640],
     S ''What's a computer's favorite snack? Microchips! '' @ [127839],
     S ''Why was the JavaScript developer sad? Because he didn't Node''
       @ S '' how to Express himself! '' @ [128546]]"

definition get_random_joke :: "env \<Rightarrow> py_error + pystr" where
  "get_random_joke e = random_choice (draw_joke e) jokes"

text \<open>The two \<open>lambda\<close>s of the intents \<open>time\<close> and \<open>date\<close>.\<close>

definition time_reply :: "env \<Rightarrow> py_error + pystr" where
  "time_reply e = Inr ([9200] @ S '' The current time is '' @ now_reply e (S ''%I:%M:%S %p'') @ S ''.'')"

definition date_reply :: "env \<Rightarrow> py_error + pystr" where
  "date_reply e = Inr ([128197] @ S '' Today is '' @ now_reply e (S ''%A, %B %d, %Y'') @ S ''.'')"

text \<open>
  \<open>INTENTS\<close>: a dict literal, so its iteration order is the order of the entries below. The
  confidences are the decimal literals of the source; as doubles they compare with each
  other and with \<open>0.0\<close> and \<open>0.8\<close> as the rationals do.
\<close>

definition INTENTS :: "(pystr \<times> intent_data) list" where
  "INTENTS =
    [(S ''greeting'',
      \<lparr>patterns =
        [[92] @ S ''b(hello|hi|hey|greetings|good'' @ [92]
          @ S ''s+(morning|afternoon|evening)|howdy|sup)'' @ [92] @ S ''b''],
       responses =
        [Text (S ''Hello! I'm here to help. What can I do for you today? '' @ [128075]),
         Text (S ''Hi there! How can I assist you? '' @ [128522]),
         Text (S ''Hey! Welcome! What would you like to know?''),
         Text (S ''Greetings! How may I help you today?'')],
       confidence = Some (9 / 10)\<rparr>),
     (S ''wellbeing'',
      \<lparr>patterns =
        [S ''how'' @ [92] @ S ''s+are'' @ [92] @ S ''s+you'',
         S ''how'?s'' @ [92] @ S ''s+it'' @ [92] @ S ''s+going'',
         S ''what'?s'' @ [92] @ S ''s+up'',
         S ''how'' @ [92] @ S ''s+do'' @ [92] @ S ''s+you'' @ [92] @ S ''s+do''],
       responses =
        [Text (S ''I'm doing great, thanks for asking! How can I help you today? '' @ [128522]),
         Text (S ''All systems running smoothly! How about you?''),
         Text (S ''I'm functioning perfectly! What can I do for you?''),
         Text (S ''Doing wonderful! How are you doing?'')],
       confidence = Some (85 / 100)\<rparr>),
     (S ''capabilities'',
      \<lparr>patterns =
        [S ''what'' @ [92] @ S ''s+can'' @ [92] @ S ''s+you'' @ [92] @ S ''s+do'',
         S ''your'' @ [92] @ S ''s+capabilities'',
         S ''what'' @ [92] @ S ''s+are'' @ [92] @ S ''s+you'' @ [92] @ S ''s+capable'' @ [92]
          @ S ''s+of'',
         S ''what'' @ [92] @ S ''s+do'' @ [92] @ S ''s+you'' @ [92] @ S ''s+do''],
       responses =
        [Text (S ''I can chat with you, answer questions, help with tasks, chec''
                @ S ''k time/date, tell jokes, and more! Just ask away! '' @ [128161]),
         Text (S ''I'm here to assist with conversations, provide information, ''
                @ S ''and help you with various tasks. Type /help for commands!'')],
       confidence = Some (9 / 10)\<rparr>),
     (S ''help'',
      \<lparr>patterns =
        [[92] @ S ''bhelp'' @ [92] @ S ''b'',
         [92] @ S ''bassist(ance)?'' @ [92] @ S ''b'',
         [92] @ S ''bsupport'' @ [92] @ S ''b'',
         S ''need'' @ [92] @ S ''s+help''],
       responses =
        [Text (S ''I'm here to help! You can ask me questions, use commands (ty''
                @ S ''pe /help), or just chat naturally! '' @ [129309])],
       confidence = Some (8 / 10)\<rparr>),
     (S ''time'',
      \<lparr>patterns =
        [[92] @ S ''b(what'' @ [92] @ S ''s+)?time('' @ [92] @ S ''s+is'' @ [92] @ S ''s+it)?''
          @ [92] @ S ''b'',
         S ''current'' @ [92] @ S ''s+time'',
         S ''o'clock'',
         S ''tell'' @ [92] @ S ''s+me'' @ [92] @ S ''s+the'' @ [92] @ S ''s+time''],
       responses =
        [Callable time_reply],
       confidence = Some (95 / 100)\<rparr>),
     (S ''date'',
      \<lparr>patterns =
        [[92] @ S ''b(what'' @ [92] @ S ''s+)?date('' @ [92] @ S ''s+is'' @ [92] @ S ''s+it)?''
          @ [92] @ S ''b'',
         S ''what'' @ [92] @ S ''s+day'' @ [92] @ S ''s+is'' @ [92] @ S ''s+it'',
         S ''today'?s'' @ [92] @ S ''s+date'',
         S ''current'' @ [92] @ S ''s+date''],
       responses =
        [Callable date_reply],
       confidence = Some (95 / 100)\<rparr>),
     (S ''thanks'',
      \<lparr>patterns =
        [[92] @ S ''b(thank'' @ [92] @ S ''s*you|thanks|thx|appreciate'' @ [92]
          @ S ''s+it|grateful)'' @ [92] @ S ''b''],
       responses =
        [Text (S ''You're welcome! '' @ [128522]),
         Text (S ''Happy to help! '' @ [129303]),
         Text (S ''Anytime! Glad I could assist!''),
         Text (S ''My pleasure! Let me know if you need anything else!'')],
       confidence = Some (9 / 10)\<rparr>),
     (S ''goodbye'',
      \<lparr>patterns =
        [[92] @ S ''b(bye|goodbye|see'' @ [92] @ S ''s+you|farewell|later|cya|take'' @ [92]
          @ S ''s+care)'' @ [92] @ S ''b''],
       responses =
        [Text (S ''Goodbye! Have a wonderful day! '' @ [128075]),
         Text (S ''Take care! Come back anytime! '' @ [128522]),
         Text (S ''See you later! It was nice chatting with you!''),
         Text (S ''Farewell! Feel free to return whenever you need help!'')],
       confidence = Some (9 / 10)\<rparr>),
     (S ''name'',
      \<lparr>patterns =
        [S ''what'?s'' @ [92] @ S ''s+your'' @ [92] @ S ''s+name'',
         S ''who'' @ [92] @ S ''s+are'' @ [92] @ S ''s+you'',
         S ''introduce'' @ [92] @ S ''s+yourself''],
       responses =
        [Text (S ''I'm ChatBot, your friendly AI assistant! '' @ [129302]),
         Text (S ''You can call me ChatBot - I'm here to help you! '' @ [128522])],
       confidence = Some (9 / 10)\<rparr>),
     (S ''joke'',
      \<lparr>patterns =
        [[92] @ S ''b(tell'' @ [92] @ S ''s+me'' @ [92] @ S ''s+)?a?'' @ [92] @ S ''s*joke''
          @ [92] @ S ''b'',
         S ''make'' @ [92] @ S ''s+me'' @ [92] @ S ''s+laugh'',
         S ''something'' @ [92] @ S ''s+funny''],
       responses =
        [Callable get_random_joke],
       confidence = Some (85 / 100)\<rparr>)]"

text \<open>\<open>intent_data.get('confidence', 0.5)\<close>\<close>

definition get_confidence :: "intent_data \<Rightarrow> rat" where
  "get_confidence d = (case confidence d of None \<Rightarrow> 1 / 2 | Some c \<Rightarrow> c)"

text \<open>
  \<open>detect_intent\<close>: the two nested \<open>for\<close> loops, over the intents and over the patterns of
  each, with the pair \<open>(best_intent, best_confidence)\<close> as the loop state.
\<close>

definition detect_step :: "env \<Rightarrow> pystr \<Rightarrow> pystr \<Rightarrow> intent_data \<Rightarrow> pystr \<times> rat \<Rightarrow> pystr \<Rightarrow> pystr \<times> rat" where
  "detect_step e message_lower intent_name d best pattern =
     (if re_search e pattern message_lower then
        (let c = get_confidence d
         in if c > snd best then (intent_name, c) else best)
      else best)"

definition detect_in :: "env \<Rightarrow> (pystr \<times> intent_data) list \<Rightarrow> pystr \<Rightarrow> pystr \<times> rat" where
  "detect_in e intents msg =
     (let message_lower = strip (lower e msg)
      in foldl (\<lambda>best (intent_name, d).
                  foldl (detect_step e message_lower intent_name d) best (patterns d))
           (S ''unknown'', 0) intents)"

definition detect_intent :: "env \<Rightarrow> pystr \<Rightarrow> pystr \<times> rat" where
  "detect_intent e msg = detect_in e INTENTS msg"

text \<open>
  The reading of the specification. A rule fires when one of its patterns matches the
  trimmed, case-folded input; among the firing rules the winner is the first, in
  registration order, whose confidence no firing rule exceeds.
\<close>

definition fires :: "env \<Rightarrow> pystr \<Rightarrow> pystr \<times> intent_data \<Rightarrow> bool" where
  "fires e msg r = list_ex (\<lambda>p. re_search e p (strip (lower e msg))) (patterns (snd r))"

definition firing :: "env \<Rightarrow> (pystr \<times> intent_data) list \<Rightarrow> pystr \<Rightarrow> (pystr \<times> intent_data) list" where
  "firing e intents msg = filter (fires e msg) intents"

definition winner :: "(pystr \<times> intent_data) list \<Rightarrow> (pystr \<times> intent_data) option" where
  "winner fs =
     find (\<lambda>r. list_all (\<lambda>r'. get_confidence (snd r') \<le> get_confidence (snd r)) fs) fs"

definition classify :: "env \<Rightarrow> (pystr \<times> intent_data) list \<Rightarrow> pystr \<Rightarrow> pystr \<times> rat" where
  "classify e intents msg =
     (case winner (firing e intents msg) of
        None \<Rightarrow> (S ''unknown'', 0)
      | Some r \<Rightarrow> (fst r, get_confidence (snd r)))"


section \<open>The server variant: command handlers\<close>

text \<open>
  The dict a command handler returns: \<open>reply\<close>, \<open>type\<close> and, after a successful export only,
  \<open>export_data\<close>.
\<close>

record command_result =
  reply :: pystr
  rtype :: pystr
  r_export_data :: "pystr option"

definition get_help_text :: pystr where
  "get_help_text =
     py_join [10]
       [[128203] @ S '' **Available Commands:**'',
        [],
        S ''**Information:**'',
        [8226] @ S '' '' @ [96] @ S ''/time'' @ [96] @ S '' - Show current time'',
        [8226] @ S '' '' @ [96] @ S ''/date'' @ [96] @ S '' - Show current date'',
        [8226] @ S '' '' @ [96] @ S ''/joke'' @ [96] @ S '' - Tell a random joke'',
        [8226] @ S '' '' @ [96] @ S ''/stats'' @ [96] @ S '' - View conversation statistics'',
        [],
        S ''**History:**'',
        [8226] @ S '' '' @ [96] @ S ''/history'' @ [96] @ S '' - View recent messages'',
        [8226] @ S '' '' @ [96] @ S ''/search <query>'' @ [96] @ S '' - Search your messages'',
        [8226] @ S '' '' @ [96] @ S ''/clear'' @ [96] @ S '' - Clear conversation history'',
        [8226] @ S '' '' @ [96] @ S ''/export'' @ [96] @ S '' - Export conversation as JSON'',
        [],
        S ''**Other:**'',
        [8226] @ S '' '' @ [96] @ S ''/whoami'' @ [96] @ S '' - Show your session info'',
        [8226] @ S '' '' @ [96] @ S ''/help'' @ [96] @ S '' - Show this help message'',
        [],
        [128161] @ S '' **Tip:** You can also just chat naturally with me!'']"

text \<open>\<open>message[:n-3] + "..."\<close> when the message is longer than \<open>n\<close>.\<close>

definition truncate_text :: "nat \<Rightarrow> pystr \<Rightarrow> pystr" where
  "truncate_text n m = (if length m > n then take (n - 3) m @ S ''...'' else m)"

text \<open>\<open>get_conversation_history\<close>, with its default \<open>limit = 10\<close> (it is never called with another).\<close>

definition history_line :: "message \<Rightarrow> pystr" where
  "history_line msg =
     (let icon = (if role msg = S ''user'' then [128100] else [129302]);
          who = (if role msg = S ''user'' then S ''You'' else S ''Bot'')
      in icon @ S '' **['' @ timestamp msg @ S ''] '' @ who @ S '':** ''
         @ truncate_text 100 (message msg))"

definition get_conversation_history :: "conversations \<Rightarrow> pystr \<Rightarrow> pystr" where
  "get_conversation_history conversations cid =
     (let msgs = get_msgs conversations cid; limit = 10
      in if msgs = [] then [128220] @ S '' No conversation history yet.''
         else py_join [10]
                (([128220] @ S '' **Recent Messages** (last '' @ str_nat (min limit (length msgs))
                  @ S ''):'' @ [10])
                 # map history_line (last_n limit msgs)))"

definition clear_conversation_history ::
  "conversations \<Rightarrow> pystr \<Rightarrow> command_result \<times> conversations" where
  "clear_conversation_history conversations cid =
     (case conversations cid of
        Some msgs \<Rightarrow>
          (let msg_count = length msgs
           in (\<lparr>reply = [128465, 65039] @ S '' Cleared '' @ str_nat msg_count
                         @ S '' message(s) from your history.'',
                rtype = S ''success'', r_export_data = None\<rparr>,
               conversations(cid \<mapsto> [])))
      | None \<Rightarrow>
          (\<lparr>reply = [128237] @ S '' No history to clear.'', rtype = S ''info'',
            r_export_data = None\<rparr>,
           conversations))"

text \<open>\<open>sum(len(m.get('message', '').split()) for m in ms)\<close>\<close>

definition total_words :: "message list \<Rightarrow> nat" where
  "total_words ms = sum_list (map (\<lambda>m. length (py_split (message m))) ms)"

definition get_conversation_stats :: "conversations \<Rightarrow> pystr \<Rightarrow> command_result" where
  "get_conversation_stats conversations cid =
     (let msgs = get_msgs conversations cid
      in case msgs of
           [] \<Rightarrow> \<lparr>reply = [128202] @ S '' No statistics available yet.'', rtype = S ''info'',
                  r_export_data = None\<rparr>
         | m0 # _ \<Rightarrow>
             (let user_msgs = filter (\<lambda>m. role m = S ''user'') msgs;
                  bot_msgs = filter (\<lambda>m. role m = S ''bot'') msgs;
                  total_words_user = total_words user_msgs;
                  total_words_bot = total_words bot_msgs;
                  first_msg = timestamp m0;
                  last_msg = timestamp (last msgs);
                  stats_text =
                    [128202] @ S '' **Conversation Statistics:**'' @ [10, 10]
                    @ [128172] @ S '' Total messages: '' @ str_nat (length msgs) @ [10]
                    @ [128100] @ S '' Your messages: '' @ str_nat (length user_msgs) @ S '' (''
                    @ str_nat total_words_user @ S '' words)'' @ [10]
                    @ [129302] @ S '' Bot messages: '' @ str_nat (length bot_msgs) @ S '' (''
                    @ str_nat total_words_bot @ S '' words)'' @ [10]
                    @ [9200] @ S '' First message: '' @ first_msg @ [10]
                    @ [128336] @ S '' Last message: '' @ last_msg @ [10]
                    @ [128273] @ S '' Session ID: '' @ [96] @ take 16 cid @ S ''...'' @ [96]
              in \<lparr>reply = stats_text, rtype = S ''info'', r_export_data = None\<rparr>))"

text \<open>
  \<open>search_conversation\<close>. \<open>results\<close> are the entries whose lowered text contains the
  lowered query, in the order of the history; the reply shows \<open>results[-5:]\<close>.
\<close>

definition search_matches :: "env \<Rightarrow> pystr \<Rightarrow> message \<Rightarrow> bool" where
  "search_matches e query m = py_in (lower e query) (lower e (message m))"

definition search_line :: "message \<Rightarrow> pystr" where
  "search_line msg =
     (let rolename = (if role msg = S ''user'' then S ''You'' else S ''Bot'')
      in [8226] @ S '' **['' @ timestamp msg @ S ''] '' @ rolename @ S '':** ''
         @ truncate_text 80 (message msg))"

definition search_conversation :: "env \<Rightarrow> conversations \<Rightarrow> pystr \<Rightarrow> pystr \<Rightarrow> command_result" where
  "search_conversation e conversations cid query =
     (let msgs = get_msgs conversations cid
      in if msgs = [] then
           \<lparr>reply = [128269] @ S '' No messages to search.'', rtype = S ''info'',
            r_export_data = None\<rparr>
         else
           (let results = filter (search_matches e query) msgs
            in if results = [] then
                 \<lparr>reply = [128269] @ S '' No messages found matching '' @ [34] @ query @ [34],
                  rtype = S ''info'', r_export_data = None\<rparr>
               else
                 \<lparr>reply = py_join [10]
                    (([128269] @ S '' **Found '' @ str_nat (length results)
                      @ S '' message(s) matching '' @ [34] @ query @ [34] @ S '':**'' @ [10])
                     # map search_line (last_n 5 results)),
                  rtype = S ''info'', r_export_data = None\<rparr>))"

definition export_conversation :: "env \<Rightarrow> conversations \<Rightarrow> pystr \<Rightarrow> command_result" where
  "export_conversation e conversations cid =
     (let msgs = get_msgs conversations cid
      in if msgs = [] then
           \<lparr>reply = [128237] @ S '' No messages to export.'', rtype = S ''info'',
            r_export_data = None\<rparr>
         else
           (case json_dumps e \<lparr>e_conversation_id = cid, e_export_time = now_iso e,
                                e_message_count = length msgs, e_messages = msgs\<rparr> of
              Inr json_str \<Rightarrow>
                \<lparr>reply = [128230] @ S '' **Conversation Export:**'' @ [10, 10]
                         @ S ''Copy the JSON below:'' @ [10, 10, 96, 96, 96] @ S ''json'' @ [10]
                         @ take 500 json_str
                         @ [10] @ S ''...'' @ [10, 96, 96, 96, 10, 10]
                         @ S ''(Full export available via API)'',
                 rtype = S ''success'', r_export_data = Some json_str\<rparr>
            | Inl err \<Rightarrow>
                \<lparr>reply = [10060] @ S '' Export failed: '' @ str_of_error err,
                 rtype = S ''error'', r_export_data = None\<rparr>))"

text \<open>
  The dict \<open>handlers\<close> of \<open>handle_local_command\<close>. Each \<open>lambda\<close> is given by what it
  returns when called: the result dict and the conversations afterwards, or the exception
  it raises. Only the two \<open>clear\<close> entries change the conversations.
\<close>

definition info :: "pystr \<Rightarrow> command_result" where
  "info r = \<lparr>reply = r, rtype = S ''info'', r_export_data = None\<rparr>"

definition handlers ::
  "env \<Rightarrow> conversations \<Rightarrow> pystr \<Rightarrow> (pystr \<times> (py_error + command_result \<times> conversations)) list" where
  "handlers e conversations cid =
     [(S ''/time'',
         Inr (info ([9200] @ S '' Current time: '' @ now_reply e (S ''%I:%M:%S %p'')), conversations)),
      (S ''/date'',
         Inr (info ([128197] @ S '' Today is '' @ now_reply e (S ''%A, %B %d, %Y'')), conversations)),
      (S ''/help'', Inr (info get_help_text, conversations)),
      (S ''/commands'', Inr (info get_help_text, conversations)),
      (S ''/joke'',
         (case get_random_joke e of Inl err \<Rightarrow> Inl err | Inr j \<Rightarrow> Inr (info j, conversations))),
      (S ''/history'', Inr (info (get_conversation_history conversations cid), conversations)),
      (S ''/whoami'',
         Inr (info ([128273] @ S '' Your conversation ID: '' @ [96] @ cid
                    @ [96, 10, 128202] @ S '' Messages in session: ''
                    @ str_nat (length (get_msgs conversations cid))), conversations)),
      (S ''/clear'', Inr (clear_conversation_history conversations cid)),
      (S ''/clear_history'', Inr (clear_conversation_history conversations cid)),
      (S ''/stats'', Inr (get_conversation_stats conversations cid, conversations)),
      (S ''/export'', Inr (export_conversation e conversations cid, conversations))]"

text \<open>
  \<open>handle_local_command\<close>. \<open>parts[0]\<close> raises IndexError when the lowered, stripped command
  is empty; that happens outside the \<open>try\<close>, so it leaves the function. An exception of a
  handler is caught and becomes an error reply.
\<close>

definition handle_local_command ::
  "env \<Rightarrow> conversations \<Rightarrow> pystr \<Rightarrow> pystr \<Rightarrow> py_error + command_result \<times> conversations" where
  "handle_local_command e conversations cmd cid =
     (let cmd_lower = strip (lower e cmd);
          parts = split_maxsplit1 cmd_lower
      in case parts of
           [] \<Rightarrow> Inl (IndexError (S ''list index out of range''))
         | command # rest \<Rightarrow>
             (let argument = (case rest of [] \<Rightarrow> [] | a # _ \<Rightarrow> a)
              in if command = S ''/search'' then
                   (if argument = [] then
                      Inr (\<lparr>reply = [128269] @ S '' Usage: /search <query>'' @ [10]
                                    @ S ''Example: /search hello'',
                            rtype = S ''error'', r_export_data = None\<rparr>, conversations)
                    else Inr (search_conversation e conversations cid argument, conversations))
                 else
                   (case map_of (handlers e conversations cid) command of
                      Some (Inr result) \<Rightarrow> Inr result
                    | Some (Inl err) \<Rightarrow>
                        Inr (\<lparr>reply = [10060] @ S '' Error executing command: '' @ str_of_error err,
                              rtype = S ''error'', r_export_data = None\<rparr>, conversations)
                    | None \<Rightarrow>
                        Inr (\<lparr>reply = [10060] @ S '' Unknown command: '' @ command @ [10]
                                      @ S ''Type /help for available commands.'',
                              rtype = S ''error'', r_export_data = None\<rparr>, conversations))))"

section \<open>The server variant: the model call\<close>

definition SYSTEM_PROMPT :: pystr where
  "SYSTEM_PROMPT =
     S ''You are a helpful, friendly, and concise AI assistant. ''
     @ S ''Provide clear and accurate responses. Use emojis sparingly for friendliness.''"

definition AI_NOT_CONFIGURED :: pystr where
  "AI_NOT_CONFIGURED =
     [128308] @ S '' AI features are currently unavailable. OpenAI API key not configured.''"

definition AI_FAILED :: pystr where
  "AI_FAILED =
     [128308] @ S '' I'm having trouble connecting to my AI brain right now. ''
     @ S ''Please try again in a moment.''"

text \<open>The \<open>messages\<close> list that \<open>ask_openai\<close> builds.\<close>

definition context_entry :: "message \<Rightarrow> chat_msg" where
  "context_entry msg =
     \<lparr>c_role = (if role msg = S ''bot'' then S ''assistant'' else S ''user''),
      content = message msg\<rparr>"

definition openai_messages :: "conversations \<Rightarrow> pystr \<Rightarrow> pystr \<Rightarrow> chat_msg list" where
  "openai_messages conversations user_message cid =
     (let user_history = get_msgs conversations cid
      in [\<lparr>c_role = S ''system'', content = SYSTEM_PROMPT\<rparr>]
         @ map context_entry (last_n CONTEXT_WINDOW user_history)
         @ [\<lparr>c_role = S ''user'', content = user_message\<rparr>])"

definition ask_openai :: "env \<Rightarrow> conversations \<Rightarrow> pystr \<Rightarrow> pystr \<Rightarrow> pystr" where
  "ask_openai e conversations user_message cid =
     (case client e of
        None \<Rightarrow> AI_NOT_CONFIGURED
      | Some create \<Rightarrow>
          (case create (openai_messages conversations user_message cid) of
             Inr text \<Rightarrow> strip text
           | Inl err \<Rightarrow> AI_FAILED))"

section \<open>The server variant: the chat endpoint\<close>

text \<open>
  What \<open>request.get_json()\<close> and \<open>data.get("message", "").strip()\<close> make of a request:
  \<^item> \<open>Falsy\<close>: the body parses to nothing or to an empty object;
  \<^item> \<open>Body (Some m)\<close>: an object whose \<open>message\<close> is the string \<open>m\<close>, \<open>Body None\<close>: a
    non-empty object without that key;
  \<^item> \<open>Raising err\<close>: parsing raises, or the body is not an object, or \<open>message\<close> is not a
    string, so that one of these calls raises \<open>err\<close>.
\<close>

datatype request = Falsy | Body "pystr option" | Raising py_error

text \<open>The result of \<open>jsonify(..)\<close> with its status code; the body keeps the keys in order.\<close>

record http_response =
  status :: nat
  body :: "(pystr \<times> json) list"

text \<open>The \<open>except Exception\<close> clause of \<open>get_response\<close>.\<close>

definition internal_error :: "env \<Rightarrow> py_error \<Rightarrow> http_response" where
  "internal_error e err =
     \<lparr>status = 500,
      body = [(S ''error'', JString (S ''An error occurred processing your message.'')),
              (S ''details'', if debug e then JString (str_of_error err) else JNull)]\<rparr>"

text \<open>
  The branch of \<open>get_response\<close> for a message that starts with \<open>/\<close>. The dict that
  \<open>handle_local_command\<close> returns is never empty, so \<open>if command_result:\<close> always holds and
  a command never falls through to intent detection.
\<close>

definition command_branch ::
  "env \<Rightarrow> conversations \<Rightarrow> pystr \<Rightarrow> pystr \<Rightarrow> http_response \<times> conversations" where
  "command_branch e conversations cid user_message =
     (case handle_local_command e conversations user_message cid of
        Inl err \<Rightarrow> (internal_error e err, conversations)
      | Inr (command_result, c1) \<Rightarrow>
          (let c2 = save_message c1 cid (S ''user'') user_message (uuid_user e) (now_user e);
               c3 = save_message c2 cid (S ''bot'') (reply command_result) (uuid_bot e) (now_bot e)
           in (\<lparr>status = 200,
                body = [(S ''reply'', JString (reply command_result)),
                        (S ''type'', JString (rtype command_result)),
                        (S ''timestamp'', JString (now_response e))]\<rparr>,
               c3)))"

text \<open>\<open>response() if callable(response) else response\<close>\<close>

definition resolve :: "env \<Rightarrow> response_item \<Rightarrow> py_error + pystr" where
  "resolve e r = (case r of Text t \<Rightarrow> Inr t | Callable f \<Rightarrow> f e)"

text \<open>The reply and the source label that the intent and AI branches choose.\<close>

definition choose_reply ::
  "env \<Rightarrow> conversations \<Rightarrow> pystr \<Rightarrow> pystr \<Rightarrow> pystr \<times> rat \<Rightarrow> py_error + pystr \<times> pystr" where
  "choose_reply e conversations cid user_message ic =
     (let intent = fst ic; conf = snd ic
      in if intent \<noteq> S ''unknown'' \<and> conf \<ge> 8 / 10 then
           (case map_of INTENTS intent of
              None \<Rightarrow> Inl (KeyError intent)
            | Some d \<Rightarrow>
                (case random_choice (draw_response e) (responses d) of
                   Inl err \<Rightarrow> Inl err
                 | Inr response \<Rightarrow>
                     (case resolve e response of
                        Inl err \<Rightarrow> Inl err
                      | Inr bot_reply \<Rightarrow> Inr (bot_reply, S ''intent''))))
         else Inr (ask_openai e conversations user_message cid, S ''ai''))"

definition chat_branch ::
  "env \<Rightarrow> conversations \<Rightarrow> pystr \<Rightarrow> pystr \<Rightarrow> http_response \<times> conversations" where
  "chat_branch e conversations cid user_message =
     (let ic = detect_intent e user_message
      in case choose_reply e conversations cid user_message ic of
           Inl err \<Rightarrow> (internal_error e err, conversations)
         | Inr (bot_reply, response_source) \<Rightarrow>
             (let c1 = save_message conversations cid (S ''user'') user_message
                         (uuid_user e) (now_user e);
                  c2 = save_message c1 cid (S ''bot'') bot_reply (uuid_bot e) (now_bot e)
              in (\<lparr>status = 200,
                   body = [(S ''reply'', JString bot_reply),
                           (S ''timestamp'', JString (now_response e)),
                           (S ''source'', JString response_source),
                           (S ''intent'',
                              if fst ic \<noteq> S ''unknown'' then JString (fst ic) else JNull)]\<rparr>,
                  c2)))"

text \<open>
  \<open>get_response\<close>. The session id of \<open>get_or_create_session_id()\<close> is the argument \<open>cid\<close>.
\<close>

definition get_response ::
  "env \<Rightarrow> conversations \<Rightarrow> pystr \<Rightarrow> request \<Rightarrow> http_response \<times> conversations" where
  "get_response e conversations cid req =
     (case req of
        Raising err \<Rightarrow> (internal_error e err, conversations)
      | Falsy \<Rightarrow>
          (\<lparr>status = 400, body = [(S ''error'', JString (S ''Invalid request''))]\<rparr>,
           conversations)
      | Body m \<Rightarrow>
          (let user_message = strip (case m of None \<Rightarrow> [] | Some s \<Rightarrow> s)
           in case validate_message user_message of
                Inl err \<Rightarrow> (internal_error e err, conversations)
              | Inr (is_valid, error_msg) \<Rightarrow>
                  if \<not> is_valid then
                    (\<lparr>status = 400,
                      body = [(S ''error'',
                               case error_msg of None \<Rightarrow> JNull | Some t \<Rightarrow> JString t)]\<rparr>,
                     conversations)
                  else if startswith user_message (S ''/'') then
                    command_branch e conversations cid user_message
                  else chat_branch e conversations cid user_message))"

text \<open>The text that \<open>get_response\<close> validates: \<open>data.get("message", "").strip()\<close>.\<close>

definition user_message_of :: "pystr option \<Rightarrow> pystr" where
  "user_message_of m = strip (case m of None \<Rightarrow> [] | Some s \<Rightarrow> s)"

text \<open>The route \<open>/clear_history\<close>.\<close>

definition clear_history_route :: "conversations \<Rightarrow> pystr \<Rightarrow> http_response \<times> conversations" where
  "clear_history_route conversations cid =
     (let (result, c1) = clear_conversation_history conversations cid
      in (\<lparr>status = 200,
           body = [(S ''status'', JString (S ''success'')),
                   (S ''message'', JString (reply result))]\<rparr>,
          c1))"


section \<open>The interactive variant (cli\_chat.py)\<close>

text \<open>
  The interactive variant keeps the history of the current user in a Python list
  \<open>messages\<close> of dicts, mutated in place, and persists all histories in the file
  \<open>chats.json\<close>. A file either holds text that \<open>json.load\<close> parses, given by the value it
  parses to (what \<open>json.dump\<close> wrote, read back, is the value written), or text that it
  rejects. Files are named by their path as a string.
\<close>

datatype stored_file = JsonFile json | BadFile

record cli_state =
  cl_messages :: "json list"
  cl_files :: "pystr \<rightharpoonup> stored_file"
  cl_out :: "pystr list"

text \<open>A file system without files.\<close>

definition no_files :: "pystr \<rightharpoonup> stored_file" where
  "no_files = Map.empty"

text \<open>
  What the interactive variant takes from outside: \<open>str.lower\<close>, the directory of the
  script, the \<open>'%Y%m%d_%H%M%S'\<close> time read by \<open>handle_export\<close>, and the outcome of the
  operating-system calls: whether a path can be opened for reading, whether writing a
  file succeeds (\<open>can_write\<close>: opening it with \<open>'w'\<close> and the whole \<open>json.dump\<close>) and, when
  it does not, whether it fails only after the file has been opened
  (\<open>fails_after_open\<close>), the error that \<open>EXPORT_DIR.mkdir\<close> raises if any, and the texts of
  the exceptions that get printed.
\<close>

record cli_env =
  cl_lower :: "pystr \<Rightarrow> pystr"
  base_dir :: pystr
  export_stamp :: pystr
  can_read :: "pystr \<Rightarrow> bool"
  can_write :: "pystr \<Rightarrow> bool"
  fails_after_open :: "pystr \<Rightarrow> bool"
  mkdir_error :: "py_error option"
  io_error_text :: "pystr \<Rightarrow> pystr"
  item_assignment_error :: "json \<Rightarrow> pystr"

definition CHATS_FILE :: "cli_env \<Rightarrow> pystr" where
  "CHATS_FILE env = base_dir env @ S ''/chats.json''"

definition EXPORT_DIR :: "cli_env \<Rightarrow> pystr" where
  "EXPORT_DIR env = base_dir env @ S ''/exports''"

subsection \<open>Terminal output\<close>

definition CYAN :: pystr where "CYAN = [27] @ S ''[96m''"
definition GREEN :: pystr where "GREEN = [27] @ S ''[92m''"
definition YELLOW :: pystr where "YELLOW = [27] @ S ''[93m''"
definition RED :: pystr where "RED = [27] @ S ''[91m''"
definition END :: pystr where "END = [27] @ S ''[0m''"
definition BOLD :: pystr where "BOLD = [27] @ S ''[1m''"

definition colored :: "pystr \<Rightarrow> pystr \<Rightarrow> pystr" where
  "colored txt color = color @ txt @ END"

text \<open>\<open>print(x)\<close>: one more item of output.\<close>

definition print :: "pystr \<Rightarrow> cli_state \<Rightarrow> cli_state" where
  "print x st = st\<lparr>cl_out := cl_out st @ [x]\<rparr>"

definition print_header :: "pystr \<Rightarrow> cli_state \<Rightarrow> cli_state" where
  "print_header txt st =
     print (colored (replicate 60 9552) CYAN @ [10])
       (print (colored (S ''  '' @ txt) BOLD)
          (print ([10] @ colored (replicate 60 9552) CYAN) st))"

definition print_info :: "pystr \<Rightarrow> cli_state \<Rightarrow> cli_state" where
  "print_info txt st = print (colored ([8505] @ S ''  '' @ txt) CYAN) st"

definition print_success :: "pystr \<Rightarrow> cli_state \<Rightarrow> cli_state" where
  "print_success txt st = print (colored ([10003] @ S ''  '' @ txt) GREEN) st"

definition print_error :: "pystr \<Rightarrow> cli_state \<Rightarrow> cli_state" where
  "print_error txt st = print (colored ([10007] @ S ''  '' @ txt) RED) st"

subsection \<open>Persistence\<close>

text \<open>
  \<open>_read_all_chats\<close> returns what the file parses to and may print and rename. The rename
  of a corrupt file to \<open>chats.json.bak\<close> is taken to succeed.
\<close>

definition read_all_chats :: "cli_env \<Rightarrow> cli_state \<Rightarrow> json \<times> cli_state" where
  "read_all_chats env st =
     (case cl_files st (CHATS_FILE env) of
        None \<Rightarrow> (JObject [], st)
      | Some f \<Rightarrow>
          if \<not> can_read env (CHATS_FILE env) then
            (JObject [],
             print_error (S ''Error reading chats: '' @ io_error_text env (CHATS_FILE env)) st)
          else
            (case f of
               JsonFile v \<Rightarrow> (v, st)
             | BadFile \<Rightarrow>
                 (let st1 = print_error (S ''Chat file is corrupted. Creating backup...'') st;
                      backup = CHATS_FILE env @ S ''.bak''
                  in (JObject [],
                      st1\<lparr>cl_files := (cl_files st1)(CHATS_FILE env := None, backup \<mapsto> f)\<rparr>))))"

text \<open>
  What a failing write leaves behind. When \<open>open(path, 'w')\<close> itself fails the file is
  untouched. When \<open>json.dump\<close> raises after the file has been opened, the old content is
  gone and the file holds the beginning of the new text only, which does not parse.
\<close>

definition failed_write ::
  "cli_env \<Rightarrow> pystr \<Rightarrow> (pystr \<rightharpoonup> stored_file) \<Rightarrow> (pystr \<rightharpoonup> stored_file)" where
  "failed_write env path files =
     (if fails_after_open env path then files(path \<mapsto> BadFile) else files)"

definition write_all_chats :: "cli_env \<Rightarrow> json \<Rightarrow> cli_state \<Rightarrow> cli_state" where
  "write_all_chats env data st =
     (if can_write env (CHATS_FILE env) then
        st\<lparr>cl_files := (cl_files st)(CHATS_FILE env \<mapsto> JsonFile data)\<rparr>
      else
        print_error (S ''Error writing chats: '' @ io_error_text env (CHATS_FILE env))
          (st\<lparr>cl_files := failed_write env (CHATS_FILE env) (cl_files st)\<rparr>))"

text \<open>\<open>d[k] = v\<close> on a dict: a present key keeps its place, a new key goes last.\<close>

definition dict_set :: "(pystr \<times> json) list \<Rightarrow> pystr \<Rightarrow> json \<Rightarrow> (pystr \<times> json) list" where
  "dict_set kvs k v =
     (if k \<in> fst ` set kvs then map (\<lambda>(k', v'). if k' = k then (k', v) else (k', v')) kvs
      else kvs @ [(k, v)])"

text \<open>
  \<open>save_user_chat\<close>. When \<open>chats.json\<close> parses to something that is not an object, the
  assignment \<open>allchats[uid] = messages\<close> raises TypeError.
\<close>

definition save_user_chat :: "cli_env \<Rightarrow> pystr \<Rightarrow> json list \<Rightarrow> cli_state \<Rightarrow> py_error + cli_state" where
  "save_user_chat env uid msgs st =
     (let (allchats, st1) = read_all_chats env st
      in case allchats of
           JObject kvs \<Rightarrow> Inr (write_all_chats env (JObject (dict_set kvs uid (JArray msgs))) st1)
         | other \<Rightarrow> Inl (TypeError (item_assignment_error env other)))"

subsection \<open>Commands\<close>

text \<open>\<open>msg.get(key, default)\<close> raises AttributeError when \<open>msg\<close> is not a dict.\<close>

definition msg_get :: "json \<Rightarrow> pystr \<Rightarrow> json \<Rightarrow> py_error + json" where
  "msg_get msg key dflt =
     (case msg of
        JObject kvs \<Rightarrow> Inr (case map_of kvs key of None \<Rightarrow> dflt | Some v \<Rightarrow> v)
      | _ \<Rightarrow> Inl (AttributeError (S ''get'')))"

text \<open>\<open>query_lower in msg.get('text', '').lower()\<close>: \<open>lower\<close> exists on strings only.\<close>

definition cli_matches :: "cli_env \<Rightarrow> pystr \<Rightarrow> json \<Rightarrow> py_error + bool" where
  "cli_matches env query_lower msg =
     (case msg_get msg (S ''text'') (JString []) of
        Inl err \<Rightarrow> Inl err
      | Inr (JString t) \<Rightarrow> Inr (py_in query_lower (cl_lower env t))
      | Inr _ \<Rightarrow> Inl (AttributeError (S ''lower'')))"

text \<open>A list comprehension with a condition that can raise.\<close>

fun filter_raising :: "('a \<Rightarrow> py_error + bool) \<Rightarrow> 'a list \<Rightarrow> py_error + 'a list" where
  "filter_raising p [] = Inr []"
| "filter_raising p (x # xs) =
     (case p x of
        Inl err \<Rightarrow> Inl err
      | Inr b \<Rightarrow>
          (case filter_raising p xs of
             Inl err \<Rightarrow> Inl err
           | Inr ys \<Rightarrow> Inr (if b then x # ys else ys)))"

text \<open>
  The line \<open>handle_search\<close> prints for one result. \<open>'[' + ts + ']'\<close> raises TypeError when
  \<open>ts\<close> is not a string. The f-string formats \<open>text\<close>, which is a string for every entry
  that got through the search (\<open>lower\<close> raised otherwise); the model gives no line for
  another value.
\<close>

definition search_result_line :: "json \<Rightarrow> py_error + pystr" where
  "search_result_line msg =
     (case msg_get msg (S ''who'') JNull of
        Inl err \<Rightarrow> Inl err
      | Inr w \<Rightarrow>
          (let who = (if w \<in> {JString (S ''me''), JString (S ''user''), JString (S ''you'')}
                      then S ''You'' else S ''Bot'')
           in case msg_get msg (S ''text'') (JString []) of
                Inl err \<Rightarrow> Inl err
              | Inr txt \<Rightarrow>
                  (case msg_get msg (S ''ts'') (JString []) of
                     Inl err \<Rightarrow> Inl err
                   | Inr (JString ts) \<Rightarrow>
                       (case txt of
                          JString t \<Rightarrow>
                            Inr (colored (S ''['' @ ts @ S '']'') YELLOW @ S '' ''
                                 @ colored (who @ S '':'') BOLD @ S '' '' @ t)
                        | _ \<Rightarrow> Inl (OtherError (S ''text is not a string'')))
                   | Inr _ \<Rightarrow> Inl (TypeError (S ''can only concatenate str'')))))"

fun print_lines :: "(json \<Rightarrow> py_error + pystr) \<Rightarrow> json list \<Rightarrow> cli_state \<Rightarrow> py_error + cli_state" where
  "print_lines f [] st = Inr st"
| "print_lines f (m # ms) st =
     (case f m of Inl err \<Rightarrow> Inl err | Inr l \<Rightarrow> print_lines f ms (print l st))"

definition handle_search :: "cli_env \<Rightarrow> pystr \<Rightarrow> cli_state \<Rightarrow> py_error + cli_state" where
  "handle_search env query st =
     (if query = [] then
        Inr (print_error (S ''Please provide a search query. Usage: /search <query>'') st)
      else
        (let query_lower = cl_lower env query
         in case filter_raising (cli_matches env query_lower) (cl_messages st) of
              Inl err \<Rightarrow> Inl err
            | Inr results \<Rightarrow>
                if results = [] then
                  Inr (print_info (S ''No messages found matching '' @ [39] @ query @ [39]) st)
                else
                  (let st1 = print_header (S ''Search Results for '' @ [39] @ query @ [39]) st;
                       st2 = print_info (S ''Found '' @ str_nat (length results)
                                         @ S '' message(s)'') st1
                   in print_lines search_result_line (last_n 20 results) st2)))"

text \<open>
  \<open>handle_export\<close>. \<open>EXPORT_DIR.mkdir(exist_ok=True)\<close> stands outside the \<open>try\<close>, so its
  error leaves the function; a failing write is caught and reported, and leaves the file
  as \<open>failed_write\<close> says.
\<close>

definition export_path :: "cli_env \<Rightarrow> pystr \<Rightarrow> pystr" where
  "export_path env uid =
     EXPORT_DIR env @ S ''/'' @ S ''chat_export_'' @ uid @ S ''_'' @ export_stamp env @ S ''.json''"

definition handle_export :: "cli_env \<Rightarrow> pystr \<Rightarrow> cli_state \<Rightarrow> py_error + cli_state" where
  "handle_export env uid st =
     (if cl_messages st = [] then Inr (print_info (S ''No messages to export.'') st)
      else
        (case mkdir_error env of
           Some err \<Rightarrow> Inl err
         | None \<Rightarrow>
             (let filepath = export_path env uid
              in if can_write env filepath then
                   Inr (print_success (S ''Chat exported to: '' @ filepath)
                          (st\<lparr>cl_files := (cl_files st)(filepath \<mapsto> JsonFile (JArray (cl_messages st)))\<rparr>))
                 else
                   Inr (print_error (S ''Export failed: '' @ io_error_text env filepath)
                          (st\<lparr>cl_files := failed_write env filepath (cl_files st)\<rparr>)))))"

text \<open>\<open>isinstance(msg, dict) and 'text' in msg\<close>\<close>

definition valid_message :: "json \<Rightarrow> bool" where
  "valid_message msg = (case msg of JObject kvs \<Rightarrow> map_of kvs (S ''text'') \<noteq> None | _ \<Rightarrow> False)"

text \<open>
  \<open>handle_import\<close> returns its boolean and the state. \<open>messages.extend(..)\<close> happens before
  \<open>save_user_chat\<close>, so when the latter raises (which the \<open>except Exception\<close> clause
  reports) the list is already extended.
\<close>

definition handle_import :: "cli_env \<Rightarrow> pystr \<Rightarrow> pystr \<Rightarrow> cli_state \<Rightarrow> bool \<times> cli_state" where
  "handle_import env uid filepath st =
     (if filepath = [] then
        (False, print_error (S ''Please provide a file path. Usage: /import <filepath>'') st)
      else
        (case cl_files st filepath of
           None \<Rightarrow> (False, print_error (S ''File not found: '' @ filepath) st)
         | Some f \<Rightarrow>
             if \<not> can_read env filepath then
               (False, print_error (S ''Import failed: '' @ io_error_text env filepath) st)
             else
               (case f of
                  BadFile \<Rightarrow> (False, print_error (S ''Invalid JSON file.'') st)
                | JsonFile (JArray data) \<Rightarrow>
                    (let valid_messages = filter valid_message data
                     in if valid_messages = [] then
                          (False, print_error (S ''No valid messages found in file.'') st)
                        else
                          (let st1 = st\<lparr>cl_messages := cl_messages st @ valid_messages\<rparr>
                           in case save_user_chat env uid (cl_messages st1) st1 of
                                Inl err \<Rightarrow>
                                  (False, print_error (S ''Import failed: '' @ str_of_error err) st1)
                              | Inr st2 \<Rightarrow>
                                  (True, print_success (S ''Imported ''
                                           @ str_nat (length valid_messages)
                                           @ S '' message(s)'') st2)))
                | JsonFile _ \<Rightarrow>
                    (False, print_error
                       (S ''Invalid file format. Expected a list of messages.'') st))))"

text \<open>
  The branch of \<open>handle_command\<close> for \<open>/clear\<close>, \<open>/clearhistory\<close> and \<open>/clear_history\<close>:
  \<open>messages.clear()\<close>, \<open>save_user_chat(uid, messages)\<close>, then the report. It returns
  \<open>(None, False)\<close>; an error of \<open>save_user_chat\<close> leaves the function with the list
  already cleared.
\<close>

definition handle_command_clear :: "cli_env \<Rightarrow> pystr \<Rightarrow> cli_state \<Rightarrow> py_error + cli_state" where
  "handle_command_clear env uid st =
     (let st1 = st\<lparr>cl_messages := []\<rparr>
      in case save_user_chat env uid (cl_messages st1) st1 of
           Inl err \<Rightarrow> Inl err
         | Inr st2 \<Rightarrow> Inr (print_success (S ''Chat history cleared.'') st2))"

text \<open>The texts of a history: \<open>msg.get('text', '')\<close> of each entry.\<close>

definition text_of :: "json \<Rightarrow> json" where
  "text_of msg =
     (case msg of
        JObject kvs \<Rightarrow> (case map_of kvs (S ''text'') of None \<Rightarrow> JString [] | Some v \<Rightarrow> v)
      | _ \<Rightarrow> JString [])"

text \<open>
  A history as the program itself builds it: every entry is a dict whose \<open>text\<close> and \<open>ts\<close>
  are strings.
\<close>

definition wf_message :: "json \<Rightarrow> bool" where
  "wf_message msg =
     (case msg of
        JObject kvs \<Rightarrow>
          (case map_of kvs (S ''text'') of Some (JString t) \<Rightarrow> True | _ \<Rightarrow> False) \<and>
          (case map_of kvs (S ''ts'') of Some (JString t) \<Rightarrow> True | _ \<Rightarrow> False)
      | _ \<Rightarrow> False)"

text \<open>The text of an entry as a string, and the line printed for it, for a well-formed entry.\<close>

definition text_str :: "json \<Rightarrow> pystr" where
  "text_str msg = (case text_of msg of JString t \<Rightarrow> t | _ \<Rightarrow> [])"

definition shown_line :: "json \<Rightarrow> pystr" where
  "shown_line msg = (case search_result_line msg of Inr l \<Rightarrow> l | Inl err \<Rightarrow> [])"

definition history_texts :: "cli_state \<Rightarrow> json list" where
  "history_texts st = map text_of (cl_messages st)"

text \<open>
  The round trip: \<open>/export\<close>, then \<open>/import\<close> of the file just written, in the same
  session. The result is the state afterwards, or \<open>None\<close> when the export raised.
\<close>

definition export_then_import :: "cli_env \<Rightarrow> pystr \<Rightarrow> cli_state \<Rightarrow> cli_state option" where
  "export_then_import env uid st =
     (case handle_export env uid st of
        Inl err \<Rightarrow> None
      | Inr st1 \<Rightarrow> Some (snd (handle_import env uid (export_path env uid) st1)))"


text \<open>
  What one firing rule does to the loop state: it replaces the best pair when its
  confidence is strictly greater.
\<close>

definition upd :: "pystr \<times> rat \<Rightarrow> pystr \<times> intent_data \<Rightarrow> pystr \<times> rat" where
  "upd best r = (if get_confidence (snd r) > snd best then (fst r, get_confidence (snd r)) else best)"

abbreviation cf :: "pystr \<times> intent_data \<Rightarrow> rat" where
  "cf r \<equiv> get_confidence (snd r)"

section \<open>Example environments\<close>

text \<open>
  Concrete stand-ins for the library functions, used to run the model on examples:
  \<open>ascii_lower\<close> lowers the ASCII letters as \<open>str.lower\<close> does, and \<open>example_env\<close>
  matches a pattern by reading it as a literal.
\<close>

definition ascii_lower :: "pystr \<Rightarrow> pystr" where
  "ascii_lower s = map (\<lambda>c. if 65 \<le> c \<and> c \<le> 90 then c + 32 else c) s"

definition example_env :: env where
  "example_env =
     \<lparr>lower = ascii_lower,
      re_search = (\<lambda>p s. py_in p s),
      json_dumps = (\<lambda>d. Inr (S ''{}'')),
      client = None,
      now_reply = (\<lambda>fmt. S ''12:00''),
      now_iso = S ''2024-01-01T12:00:00'',
      draw_response = 0,
      draw_joke = 0,
      uuid_user = S ''u1'',
      now_user = S ''12:00 PM'',
      uuid_bot = S ''b1'',
      now_bot = S ''12:00 PM'',
      now_response = S ''12:00 PM'',
      debug = False\<rparr>"

definition example_cli_env :: cli_env where
  "example_cli_env =
     \<lparr>cl_lower = ascii_lower,
      base_dir = S ''/app'',
      export_stamp = S ''20240101_120000'',
      can_read = (\<lambda>p. True),
      can_write = (\<lambda>p. True),
      fails_after_open = (\<lambda>p. False),
      mkdir_error = None,
      io_error_text = (\<lambda>p. S ''Permission denied''),
      item_assignment_error = (\<lambda>v. S ''object does not support item assignment'')\<rparr>"

text \<open>An entry as the main loop of the interactive variant appends it.\<close>

definition cli_entry :: "pystr \<Rightarrow> pystr \<Rightarrow> pystr \<Rightarrow> pystr \<Rightarrow> json" where
  "cli_entry i who txt ts =
     JObject [(S ''id'', JString i), (S ''who'', JString who), (S ''text'', JString txt),
              (S ''ts'', JString ts)]"

text \<open>
  A session with nine entries, \<open>m0\<close> to \<open>m8\<close>, of the user and the bot in turn, and a
  client that answers with the role of the third and the content of the second entry it
  was sent.
\<close>

definition example_history :: "message list" where
  "example_history =
     [\<lparr>msg_id = S ''i0'', role = S ''user'', message = S ''m0'', timestamp = S ''t''\<rparr>,
      \<lparr>msg_id = S ''i1'', role = S ''bot'', message = S ''m1'', timestamp = S ''t''\<rparr>,
      \<lparr>msg_id = S ''i2'', role = S ''user'', message = S ''m2'', timestamp = S ''t''\<rparr>,
      \<lparr>msg_id = S ''i3'', role = S ''bot'', message = S ''m3'', timestamp = S ''t''\<rparr>,
      \<lparr>msg_id = S ''i4'', role = S ''user'', message = S ''m4'', timestamp = S ''t''\<rparr>,
      \<lparr>msg_id = S ''i5'', role = S ''bot'', message = S ''m5'', timestamp = S ''t''\<rparr>,
      \<lparr>msg_id = S ''i6'', role = S ''user'', message = S ''m6'', timestamp = S ''t''\<rparr>,
      \<lparr>msg_id = S ''i7'', role = S ''bot'', message = S ''m7'', timestamp = S ''t''\<rparr>,
      \<lparr>msg_id = S ''i8'', role = S ''user'', message = S ''m8'', timestamp = S ''t''\<rparr>]"

definition echo_client :: "chat_msg list \<Rightarrow> py_error + pystr" where
  "echo_client ms = Inr (c_role (ms ! 2) @ S '':'' @ content (ms ! 1))"


section \<open>Properties: storage\<close>

lemma last_n_length: "length (last_n k xs) = min k (length xs)"
  by (simp add: last_n_def)

lemma last_n_all: "length xs \<le> k \<Longrightarrow> last_n k xs = xs"
  by (simp add: last_n_def)

lemma last_n_snoc: "last_n (Suc k) (xs @ [x]) = last_n k xs @ [x]"
  by (simp add: last_n_def Suc_diff_le)

lemma last_n_append_absorb: "last_n k (last_n k xs @ ys) = last_n k (xs @ ys)"
  by (cases "length xs \<le> k") (simp_all add: last_n_def add.commute)

lemma save_message_get:
  "get_msgs (save_message c cid rl msg i t) cid =
   last_n MAX_HISTORY_LENGTH
     (get_msgs c cid @ [\<lparr>msg_id = i, role = rl, message = msg, timestamp = t\<rparr>])"
proof (cases "length (get_msgs c cid) \<ge> MAX_HISTORY_LENGTH")
  case True
  have "last_n (Suc 99) (get_msgs c cid @ [\<lparr>msg_id = i, role = rl, message = msg, timestamp = t\<rparr>])
        = last_n 99 (get_msgs c cid) @ [\<lparr>msg_id = i, role = rl, message = msg, timestamp = t\<rparr>]"
    by (rule last_n_snoc)
  with True show ?thesis
    by (cases "c cid") (simp_all add: save_message_def get_msgs_def MAX_HISTORY_LENGTH_def Let_def)
next
  case False
  then have "length (get_msgs c cid @ [\<lparr>msg_id = i, role = rl, message = msg, timestamp = t\<rparr>])
             \<le> MAX_HISTORY_LENGTH"
    by simp
  then have "last_n MAX_HISTORY_LENGTH
               (get_msgs c cid @ [\<lparr>msg_id = i, role = rl, message = msg, timestamp = t\<rparr>])
             = get_msgs c cid @ [\<lparr>msg_id = i, role = rl, message = msg, timestamp = t\<rparr>]"
    by (rule last_n_all)
  with False show ?thesis
    by (cases "c cid") (simp_all add: save_message_def get_msgs_def MAX_HISTORY_LENGTH_def Let_def)
qed

lemma save_all_get_from:
  "get_msgs c cid = last_n MAX_HISTORY_LENGTH xs \<Longrightarrow>
   get_msgs (save_all c cid as) cid = last_n MAX_HISTORY_LENGTH (xs @ map entry_of as)"
proof (induction as arbitrary: c xs)
  case Nil
  then show ?case by simp
next
  case (Cons a as)
  have "get_msgs (save_message c cid (a_role a) (a_text a) (a_id a) (a_now a)) cid
        = last_n MAX_HISTORY_LENGTH (last_n MAX_HISTORY_LENGTH xs @ [entry_of a])"
    by (simp add: save_message_get entry_of_def Cons.prems)
  then have "get_msgs (save_message c cid (a_role a) (a_text a) (a_id a) (a_now a)) cid
        = last_n MAX_HISTORY_LENGTH (xs @ [entry_of a])"
    by (simp add: last_n_append_absorb)
  from Cons.IH [OF this] show ?case by simp
qed

lemma save_all_get:
  "as \<noteq> [] \<Longrightarrow>
   get_msgs (save_all c cid as) cid =
   last_n MAX_HISTORY_LENGTH (get_msgs c cid @ map entry_of as)"
proof (cases as)
  case Nil
  assume "as \<noteq> []"
  with Nil show ?thesis by simp
next
  case (Cons a bs)
  have "get_msgs (save_message c cid (a_role a) (a_text a) (a_id a) (a_now a)) cid
        = last_n MAX_HISTORY_LENGTH (get_msgs c cid @ [entry_of a])"
    by (simp add: save_message_get entry_of_def)
  from save_all_get_from [OF this, of bs] Cons show ?thesis by simp
qed

text \<open>
  C1. After more than \<open>MAX_HISTORY_LENGTH\<close> appends to a session, whatever it held before,
  the session holds exactly \<open>MAX_HISTORY_LENGTH\<close> entries: the most recently appended ones, in
  the order of their appends. Each single append keeps the old entries in order, drops the
  oldest so that 99 remain when the session already held 100 or more, and puts the new entry
  last.
\<close>

theorem save_message_keeps_most_recent:
  "(length as > MAX_HISTORY_LENGTH \<longrightarrow>
      length (get_msgs (save_all c cid as) cid) = MAX_HISTORY_LENGTH \<and>
      get_msgs (save_all c cid as) cid = last_n MAX_HISTORY_LENGTH (map entry_of as)) \<and>
   get_msgs (save_message c cid rl msg i t) cid =
     (if length (get_msgs c cid) \<ge> MAX_HISTORY_LENGTH
      then last_n (MAX_HISTORY_LENGTH - 1) (get_msgs c cid)
      else get_msgs c cid) @ [\<lparr>msg_id = i, role = rl, message = msg, timestamp = t\<rparr>] \<and>
   (length (get_msgs c cid) \<ge> MAX_HISTORY_LENGTH \<longrightarrow>
      length (get_msgs (save_message c cid rl msg i t) cid) = MAX_HISTORY_LENGTH)"
proof (intro conjI impI)
  assume big: "length as > MAX_HISTORY_LENGTH"
  then have ne: "as \<noteq> []" by auto
  have eq: "get_msgs (save_all c cid as) cid
            = last_n MAX_HISTORY_LENGTH (get_msgs c cid @ map entry_of as)"
    by (rule save_all_get [OF ne])
  from big show "get_msgs (save_all c cid as) cid = last_n MAX_HISTORY_LENGTH (map entry_of as)"
    by (simp add: eq last_n_def)
  from big show "length (get_msgs (save_all c cid as) cid) = MAX_HISTORY_LENGTH"
    by (simp add: eq last_n_def)
next
  show "get_msgs (save_message c cid rl msg i t) cid =
     (if length (get_msgs c cid) \<ge> MAX_HISTORY_LENGTH
      then last_n (MAX_HISTORY_LENGTH - 1) (get_msgs c cid)
      else get_msgs c cid) @ [\<lparr>msg_id = i, role = rl, message = msg, timestamp = t\<rparr>]"
    by (cases "c cid") (simp_all add: save_message_def get_msgs_def Let_def)
next
  assume "length (get_msgs c cid) \<ge> MAX_HISTORY_LENGTH"
  then show "length (get_msgs (save_message c cid rl msg i t) cid) = MAX_HISTORY_LENGTH"
    by (simp add: save_message_get last_n_def)
qed

theorem save_message_keeps_most_recent_witness:
  "length (replicate 101 \<lparr>a_role = S ''user'', a_text = S ''hi'', a_id = [], a_now = []\<rparr>)
     > MAX_HISTORY_LENGTH \<and>
   get_msgs (save_all Map.empty (S ''s'')
      (replicate 101 \<lparr>a_role = S ''user'', a_text = S ''hi'', a_id = [], a_now = []\<rparr>)) (S ''s'')
   = replicate 100 \<lparr>msg_id = [], role = S ''user'', message = S ''hi'', timestamp = []\<rparr> \<and>
   length (get_msgs (Map.empty (S ''s'' \<mapsto> replicate 100 \<lparr>msg_id = [], role = [], message = [],
             timestamp = []\<rparr>)) (S ''s'')) \<ge> MAX_HISTORY_LENGTH \<and>
   length (get_msgs (save_message
       (Map.empty (S ''s'' \<mapsto> replicate 100 \<lparr>msg_id = [], role = [], message = [],
             timestamp = []\<rparr>)) (S ''s'') [] [] [] []) (S ''s'')) = MAX_HISTORY_LENGTH"
proof -
  let ?a = "\<lparr>a_role = S ''user'', a_text = S ''hi'', a_id = [], a_now = []\<rparr>"
  let ?c = "Map.empty (S ''s'' \<mapsto> replicate 100 \<lparr>msg_id = [], role = [], message = [],
             timestamp = []\<rparr>)"
  have big: "length (replicate 101 ?a) > MAX_HISTORY_LENGTH"
    unfolding MAX_HISTORY_LENGTH_def length_replicate by simp
  have full: "length (get_msgs ?c (S ''s'')) \<ge> MAX_HISTORY_LENGTH"
    unfolding MAX_HISTORY_LENGTH_def get_msgs_def by simp
  have l: "last_n MAX_HISTORY_LENGTH (map entry_of (replicate 101 ?a))
        = replicate 100 \<lparr>msg_id = [], role = S ''user'', message = S ''hi'', timestamp = []\<rparr>"
    unfolding last_n_def MAX_HISTORY_LENGTH_def
    by (simp add: entry_of_def)
  from big l save_message_keeps_most_recent
      [where as = "replicate 101 ?a" and c = Map.empty and cid = "S ''s''"]
  have p1: "get_msgs (save_all Map.empty (S ''s'') (replicate 101 ?a)) (S ''s'')
            = replicate 100 \<lparr>msg_id = [], role = S ''user'', message = S ''hi'', timestamp = []\<rparr>"
    by simp
  from full save_message_keeps_most_recent
      [where as = "[]" and c = ?c and cid = "S ''s''" and rl = "[]" and msg = "[]"
         and i = "[]" and t = "[]"]
  have p2: "length (get_msgs (save_message ?c (S ''s'') [] [] [] []) (S ''s''))
            = MAX_HISTORY_LENGTH"
    by blast
  from big full p1 p2 show ?thesis by blast
qed

section \<open>Properties: validation\<close>

lemma strip_Nil: "strip [] = []"
  by (simp add: strip_def)

lemma validate_blank:
  "strip msg = [] \<Longrightarrow> validate_message msg = Inr (False, Some (S ''Please type a message!''))"
  by (simp add: validate_message_def)

lemma validate_long:
  "strip msg \<noteq> [] \<Longrightarrow> length msg > MAX_MESSAGE_LENGTH \<Longrightarrow>
   validate_message msg = Inr (False, Some (S ''Message too long! Maximum ''
       @ str_nat MAX_MESSAGE_LENGTH @ S '' characters.''))"
  using strip_Nil by (auto simp add: validate_message_def)

lemma validate_rest:
  "strip msg \<noteq> [] \<Longrightarrow> \<not> length msg > MAX_MESSAGE_LENGTH \<Longrightarrow>
   validate_message msg =
     (if first_char_dominates msg then Inr (False, Some (S ''Message appears to be spam.''))
      else Inr (True, None))"
proof (cases msg)
  case Nil
  assume "strip msg \<noteq> []"
  with Nil strip_Nil show ?thesis by simp
next
  case (Cons c cs)
  assume a: "strip msg \<noteq> []" and b: "\<not> length msg > MAX_MESSAGE_LENGTH"
  have "validate_message msg =
     (case index0 msg of Inl e \<Rightarrow> Inl e
      | Inr c \<Rightarrow> if 5 * count_list msg c > 4 * length msg then
               Inr (False, Some (S ''Message appears to be spam.''))
             else Inr (True, None))"
    unfolding validate_message_def using a b Cons by simp
  also have "index0 msg = Inr c"
    by (simp add: index0_def Cons)
  finally show ?thesis
    by (simp add: first_char_dominates_def Cons)
qed


text \<open>
  C10. \<open>validate_message\<close> returns a pair for every string and never raises: the indexing
  \<open>message[0]\<close> is reached only for a non-empty message.
\<close>

theorem validate_message_total:
  "\<exists>b e. validate_message msg = Inr (b, e)"
proof (cases "strip msg = []")
  case True
  from validate_blank [OF True] show ?thesis by blast
next
  case False
  show ?thesis
  proof (cases "length msg > MAX_MESSAGE_LENGTH")
    case True
    from validate_long [OF False True] show ?thesis by blast
  next
    case long: False
    show ?thesis
    proof (cases "first_char_dominates msg")
      case True
      with validate_rest [OF False long]
      have "validate_message msg = Inr (False, Some (S ''Message appears to be spam.''))" by simp
      then show ?thesis by blast
    next
      case ok: False
      with validate_rest [OF False long]
      have "validate_message msg = Inr (True, None)" by simp
      then show ?thesis by blast
    qed
  qed
qed

text \<open>
  C2, as the claim states it, fails: in ten characters of which nine are \<open>a\<close>, one
  character accounts for 90% of them, and the message is accepted, because the code counts
  the first character only.
\<close>

theorem validate_message_dominated_counterexample:
  "dominated (S ''baaaaaaaaa'') \<and> validate_message (S ''baaaaaaaaa'') = Inr (True, None)"
  by (simp add: dominated_def validate_message_def S_def strip_def is_space_def index0_def
        MAX_MESSAGE_LENGTH_def)

text \<open>
  C2, amended. Validation fails exactly when the message is empty or whitespace only, when
  it has more than 2000 characters, or when its first character accounts for more than 80%
  of its characters; in every other case it returns \<open>(True, None)\<close>.
\<close>

theorem validate_message_fails_iff:
  "((\<exists>e. validate_message msg = Inr (False, Some e)) \<longleftrightarrow>
      (strip msg = [] \<or> length msg > MAX_MESSAGE_LENGTH \<or> first_char_dominates msg)) \<and>
   (validate_message msg = Inr (True, None) \<longleftrightarrow>
      \<not> (strip msg = [] \<or> length msg > MAX_MESSAGE_LENGTH \<or> first_char_dominates msg))"
proof (cases "strip msg = []")
  case True
  from validate_blank [OF True] True show ?thesis by simp
next
  case False
  show ?thesis
  proof (cases "length msg > MAX_MESSAGE_LENGTH")
    case True
    from validate_long [OF False True] False True show ?thesis by simp
  next
    case long: False
    from validate_rest [OF False long] False long show ?thesis by simp
  qed
qed

theorem validate_message_fails_iff_witness:
  "(\<exists>e. validate_message (S ''aaaaaaaaaa'') = Inr (False, Some e)) \<and>
   validate_message (S ''hello there'') = Inr (True, None)"
proof -
  have a: "first_char_dominates (S ''aaaaaaaaaa'')"
    by (simp add: first_char_dominates_def S_def)
  have b: "\<not> (strip (S ''hello there'') = [] \<or> length (S ''hello there'') > MAX_MESSAGE_LENGTH
              \<or> first_char_dominates (S ''hello there''))"
    by (simp add: first_char_dominates_def S_def strip_def is_space_def MAX_MESSAGE_LENGTH_def)
  from a validate_message_fails_iff [of "S ''aaaaaaaaaa''"]
  have "\<exists>e. validate_message (S ''aaaaaaaaaa'') = Inr (False, Some e)" by blast
  moreover from b validate_message_fails_iff [of "S ''hello there''"]
  have "validate_message (S ''hello there'') = Inr (True, None)" by blast
  ultimately show ?thesis by blast
qed

section \<open>Properties: intent detection\<close>

lemma inner_fold:
  "foldl (detect_step e ml n d) best ps =
   (if list_ex (\<lambda>p. re_search e p ml) ps then upd best (n, d) else best)"
proof (induction ps arbitrary: best)
  case Nil
  then show ?case by simp
next
  case (Cons p ps)
  show ?case
  proof (cases "re_search e p ml")
    case True
    have "detect_step e ml n d best p = upd best (n, d)"
      using True by (simp add: detect_step_def upd_def Let_def)
    moreover have "upd (upd best (n, d)) (n, d) = upd best (n, d)"
      by (simp add: upd_def)
    ultimately show ?thesis using True Cons.IH by simp
  next
    case False
    then have "detect_step e ml n d best p = best"
      by (simp add: detect_step_def)
    with False Cons.IH show ?thesis by simp
  qed
qed

lemma outer_fold:
  "foldl (\<lambda>best (n, d). foldl (detect_step e (strip (lower e msg)) n d) best (patterns d)) best rs
   = foldl upd best (filter (fires e msg) rs)"
proof (induction rs arbitrary: best)
  case Nil
  then show ?case by simp
next
  case (Cons r rs)
  let ?F = "\<lambda>best (n, d). foldl (detect_step e (strip (lower e msg)) n d) best (patterns d)"
  obtain n d where r: "r = (n, d)" by (cases r)
  have "foldl ?F best (r # rs) = foldl upd (?F best r) (filter (fires e msg) rs)"
    by (simp add: Cons.IH)
  moreover have "?F best r = (if fires e msg r then upd best r else best)"
    by (simp add: r inner_fold fires_def)
  ultimately show ?case by simp
qed

lemma detect_in_fold: "detect_in e rs msg = foldl upd (S ''unknown'', 0) (firing e rs msg)"
  by (simp add: detect_in_def outer_fold firing_def Let_def)

lemma exists_max:
  assumes "fs \<noteq> []"
  shows "\<exists>m \<in> set fs. \<forall>x \<in> set fs. cf x \<le> cf m"
proof -
  have fin: "finite (cf ` set fs)" and ne: "cf ` set fs \<noteq> {}"
    using assms by auto
  from Max_in [OF fin ne] obtain m where m: "m \<in> set fs" "cf m = Max (cf ` set fs)"
    by auto
  have "\<forall>x \<in> set fs. cf x \<le> cf m"
  proof
    fix x assume "x \<in> set fs"
    then have "cf x \<in> cf ` set fs" by simp
    from Max_ge [OF fin this] m(2) show "cf x \<le> cf m" by simp
  qed
  with m(1) show ?thesis by blast
qed

lemma fold_upd:
  "foldl upd b fs =
   (case find (\<lambda>r. cf r > snd b \<and> list_all (\<lambda>r'. cf r' \<le> cf r) fs) fs of
      None \<Rightarrow> b | Some r \<Rightarrow> (fst r, cf r))"
proof (induction fs arbitrary: b)
  case Nil
  then show ?case by simp
next
  case (Cons r rs)
  let ?Q = "\<lambda>x. cf x > snd b \<and> list_all (\<lambda>r'. cf r' \<le> cf x) (r # rs)"
  show ?case
  proof (cases "cf r > snd b")
    case gt: True
    let ?T = "\<lambda>x. cf x > cf r \<and> list_all (\<lambda>r'. cf r' \<le> cf x) rs"
    have u: "upd b r = (fst r, cf r)" using gt by (simp add: upd_def)
    have ih: "foldl upd b (r # rs) =
              (case find ?T rs of None \<Rightarrow> (fst r, cf r) | Some x \<Rightarrow> (fst x, cf x))"
      using Cons.IH [of "(fst r, cf r)"] u by simp
    show ?thesis
    proof (cases "list_all (\<lambda>r'. cf r' \<le> cf r) rs")
      case True
      then have "find ?T rs = None"
        by (auto simp: find_None_iff list_all_iff)
      moreover from True gt have "?Q r" by simp
      then have "find ?Q (r # rs) = Some r" by simp
      ultimately
      have rhs: "(case find ?Q (r # rs) of None \<Rightarrow> b | Some x \<Rightarrow> (fst x, cf x))
                 = (case find ?T rs of None \<Rightarrow> (fst r, cf r) | Some x \<Rightarrow> (fst x, cf x))"
        by (simp only: option.case)
      show ?thesis by (rule trans [OF ih rhs [symmetric]])
    next
      case False
      then obtain y where y: "y \<in> set rs" "cf y > cf r" by (auto simp: list_all_iff)
      have eq: "find ?T rs = find ?Q rs"
        using y gt by (intro find_cong) (auto simp: list_all_iff)
      from False have "\<not> ?Q r" by simp
      then have "find ?Q (r # rs) = find ?Q rs" by (simp only: find.simps if_False)
      with eq have eq': "find ?Q (r # rs) = find ?T rs" by simp
      from y(1) have "rs \<noteq> []" by auto
      from exists_max [OF this] obtain m where m: "m \<in> set rs" "\<forall>x \<in> set rs. cf x \<le> cf m"
        by blast
      with y have "cf m > cf r" by force
      with m have "\<exists>x. x \<in> set rs \<and> ?T x"
        by (intro exI [of _ m]) (simp add: list_all_iff)
      then have "find ?T rs \<noteq> None"
        by (simp only: find_None_iff not_not)
      then obtain z where z: "find ?T rs = Some z" by auto
      have rhs: "(case find ?Q (r # rs) of None \<Rightarrow> b | Some x \<Rightarrow> (fst x, cf x))
                 = (case find ?T rs of None \<Rightarrow> (fst r, cf r) | Some x \<Rightarrow> (fst x, cf x))"
        by (simp only: eq' z option.case)
      show ?thesis by (rule trans [OF ih rhs [symmetric]])
    qed
  next
    case le: False
    then have u: "upd b r = b" by (simp add: upd_def)
    let ?R = "\<lambda>x. cf x > snd b \<and> list_all (\<lambda>r'. cf r' \<le> cf x) rs"
    have eq: "find ?R rs = find ?Q rs"
      using le by (intro find_cong) (auto simp: list_all_iff)
    from le have "\<not> ?Q r" by simp
    then have "find ?Q (r # rs) = find ?Q rs" by (simp only: find.simps if_False)
    with eq have eq': "find ?Q (r # rs) = find ?R rs" by simp
    have ih: "foldl upd b (r # rs) =
              (case find ?R rs of None \<Rightarrow> b | Some x \<Rightarrow> (fst x, cf x))"
      using Cons.IH [of b] u by simp
    have rhs: "(case find ?Q (r # rs) of None \<Rightarrow> b | Some x \<Rightarrow> (fst x, cf x))
               = (case find ?R rs of None \<Rightarrow> b | Some x \<Rightarrow> (fst x, cf x))"
      by (simp only: eq')
    show ?thesis by (rule trans [OF ih rhs [symmetric]])
  qed
qed

lemma detect_in_classify:
  assumes "list_all (\<lambda>r. cf r > 0) rs"
  shows "detect_in e rs msg = classify e rs msg"
proof -
  have pos: "\<forall>x \<in> set (firing e rs msg). cf x > 0"
    using assms by (auto simp: firing_def list_all_iff)
  have "find (\<lambda>r. cf r > snd (S ''unknown'', 0::rat)
                  \<and> list_all (\<lambda>r'. cf r' \<le> cf r) (firing e rs msg)) (firing e rs msg)
        = winner (firing e rs msg)"
    unfolding winner_def using pos by (intro find_cong) auto
  then show ?thesis
    by (simp add: detect_in_fold fold_upd classify_def)
qed

lemma INTENTS_positive: "list_all (\<lambda>r. cf r > 0) INTENTS"
  by (simp add: INTENTS_def get_confidence_def)

lemma winner_split:
  assumes "fs \<noteq> []"
  shows "\<exists>pre r post. fs = pre @ r # post \<and> winner fs = Some r \<and>
      (\<forall>x \<in> set pre. cf x < cf r) \<and> (\<forall>x \<in> set post. cf x \<le> cf r)"
proof -
  let ?P = "\<lambda>r. list_all (\<lambda>r'. cf r' \<le> cf r) fs"
  from exists_max [OF assms] obtain m where m: "m \<in> set fs" and Pm: "?P m"
    by (auto simp: list_all_iff)
  from m Pm have "\<exists>x. x \<in> set fs \<and> ?P x"
    by (intro exI [of _ m]) simp
  then have "find ?P fs \<noteq> None"
    by (simp only: find_None_iff not_not)
  then obtain r where r: "find ?P fs = Some r" by auto
  then obtain i where i: "i < length fs" "?P (fs ! i)" "r = fs ! i" "\<forall>j<i. \<not> ?P (fs ! j)"
    by (auto simp: find_Some_iff)
  have split: "fs = take i fs @ r # drop (Suc i) fs"
    using i(1,3) by (simp add: id_take_nth_drop)
  have top: "\<forall>x \<in> set fs. cf x \<le> cf r"
    using i(2,3) by (auto simp: list_all_iff)
  have "\<forall>x \<in> set (take i fs). cf x < cf r"
  proof
    fix x assume "x \<in> set (take i fs)"
    then obtain j where j: "j < i" "x = fs ! j"
      using i(1) by (auto simp: in_set_conv_nth)
    with i(4) have "\<not> ?P x" by simp
    then obtain y where "y \<in> set fs" "cf x < cf y"
      by (auto simp: list_all_iff not_le)
    with top show "cf x < cf r" by force
  qed
  moreover have "\<forall>x \<in> set (drop (Suc i) fs). cf x \<le> cf r"
    using top by (meson in_set_dropD)
  ultimately show ?thesis
    using split r unfolding winner_def by blast
qed

lemma detect_step_cong:
  "re_search e' = re_search e \<Longrightarrow> detect_step e' = detect_step e"
  by (intro ext) (simp add: detect_step_def)

text \<open>
  C3. For every input and the rule set \<open>INTENTS\<close>, \<open>detect_intent\<close> returns the label and
  the confidence of the firing rule of highest confidence, the first such rule in
  registration order when several share it: every firing rule before the winner has a
  strictly smaller confidence, every one after it a smaller or equal one. When no rule fires
  it returns \<open>('unknown', 0.0)\<close>. The result depends on the input and on the two library
  functions only (\<open>str.lower\<close>, \<open>re.search\<close>), not on the clock or on any random draw, so
  it is the same on every call.
\<close>

theorem detect_intent_highest_confidence:
  "detect_intent e msg = classify e INTENTS msg \<and>
   (firing e INTENTS msg = [] \<longrightarrow> detect_intent e msg = (S ''unknown'', 0)) \<and>
   (firing e INTENTS msg \<noteq> [] \<longrightarrow>
      (\<exists>pre r post. firing e INTENTS msg = pre @ r # post \<and>
         detect_intent e msg = (fst r, cf r) \<and>
         (\<forall>x \<in> set pre. cf x < cf r) \<and> (\<forall>x \<in> set post. cf x \<le> cf r))) \<and>
   (lower e' = lower e \<and> re_search e' = re_search e \<longrightarrow>
      detect_intent e' msg = detect_intent e msg)"
proof (intro conjI impI)
  show eq: "detect_intent e msg = classify e INTENTS msg"
    unfolding detect_intent_def by (rule detect_in_classify [OF INTENTS_positive])
  show "detect_intent e msg = (S ''unknown'', 0)" if "firing e INTENTS msg = []"
    using that by (simp add: eq classify_def winner_def)
  show "\<exists>pre r post. firing e INTENTS msg = pre @ r # post \<and>
         detect_intent e msg = (fst r, cf r) \<and>
         (\<forall>x \<in> set pre. cf x < cf r) \<and> (\<forall>x \<in> set post. cf x \<le> cf r)"
    if ne: "firing e INTENTS msg \<noteq> []"
  proof -
    from winner_split [OF ne] obtain pre r post where
      w: "firing e INTENTS msg = pre @ r # post" "winner (firing e INTENTS msg) = Some r"
         "\<forall>x \<in> set pre. cf x < cf r" "\<forall>x \<in> set post. cf x \<le> cf r"
      by blast
    from w(2) have "detect_intent e msg = (fst r, cf r)"
      by (simp add: eq classify_def)
    with w show ?thesis by blast
  qed
  show "detect_intent e' msg = detect_intent e msg"
    if same: "lower e' = lower e \<and> re_search e' = re_search e"
  proof -
    from same have "detect_step e' = detect_step e"
      by (intro detect_step_cong) simp
    with same show ?thesis
      by (simp only: detect_intent_def detect_in_def)
  qed
qed

theorem detect_intent_highest_confidence_witness:
  "firing (example_env\<lparr>re_search := \<lambda>p s. False\<rparr>) INTENTS (S ''hello'') = [] \<and>
   detect_intent (example_env\<lparr>re_search := \<lambda>p s. False\<rparr>) (S ''hello'') = (S ''unknown'', 0) \<and>
   firing (example_env\<lparr>re_search := \<lambda>p s. True\<rparr>) INTENTS (S ''hello'') \<noteq> [] \<and>
   detect_intent (example_env\<lparr>re_search := \<lambda>p s. True\<rparr>) (S ''hello'') = (S ''time'', 95 / 100) \<and>
   detect_intent (example_env\<lparr>re_search := \<lambda>p s. True, draw_joke := 7\<rparr>) (S ''hello'')
     = detect_intent (example_env\<lparr>re_search := \<lambda>p s. True\<rparr>) (S ''hello'')"
proof -
  let ?eF = "example_env\<lparr>re_search := \<lambda>p s. False\<rparr>"
  let ?eT = "example_env\<lparr>re_search := \<lambda>p s. True\<rparr>"
  let ?eT' = "example_env\<lparr>re_search := \<lambda>p s. True, draw_joke := 7\<rparr>"
  have a: "firing ?eF INTENTS (S ''hello'') = []"
    by (simp add: firing_def fires_def INTENTS_def)
  have b: "firing ?eT INTENTS (S ''hello'') = INTENTS"
    by (simp add: firing_def fires_def INTENTS_def)
  have b': "INTENTS \<noteq> []"
    by (simp add: INTENTS_def)
  have c: "classify ?eT INTENTS (S ''hello'') = (S ''time'', 95 / 100)"
    unfolding classify_def b by (simp add: winner_def INTENTS_def get_confidence_def)
  have d: "lower ?eT' = lower ?eT \<and> re_search ?eT' = re_search ?eT"
    by simp
  from a detect_intent_highest_confidence [of ?eF "S ''hello''" ?eF]
  have "detect_intent ?eF (S ''hello'') = (S ''unknown'', 0)" by blast
  moreover from c detect_intent_highest_confidence [of ?eT "S ''hello''" ?eT]
  have "detect_intent ?eT (S ''hello'') = (S ''time'', 95 / 100)" by simp
  moreover from b b' have ne: "firing ?eT INTENTS (S ''hello'') \<noteq> []" by simp
  from ne detect_intent_highest_confidence [of ?eT "S ''hello''" ?eT]
  have "\<exists>r. detect_intent ?eT (S ''hello'') = (fst r, cf r)"
    by blast
  moreover from d detect_intent_highest_confidence [of ?eT "S ''hello''" ?eT']
  have "detect_intent ?eT' (S ''hello'') = detect_intent ?eT (S ''hello'')" by blast
  ultimately show ?thesis using a ne by blast
qed

section \<open>Properties: the chat endpoint\<close>

lemma get_response_invalid:
  assumes "validate_message (user_message_of m) = Inr (False, err)"
  shows "get_response e c cid (Body m) =
         (\<lparr>status = 400,
           body = [(S ''error'', case err of None \<Rightarrow> JNull | Some t \<Rightarrow> JString t)]\<rparr>, c)"
  using assms by (simp add: get_response_def user_message_of_def Let_def)

lemma get_response_valid:
  assumes "validate_message (user_message_of m) = Inr (True, err)"
  shows "get_response e c cid (Body m) =
         (if startswith (user_message_of m) (S ''/'')
          then command_branch e c cid (user_message_of m)
          else chat_branch e c cid (user_message_of m))"
  using assms by (simp add: get_response_def user_message_of_def Let_def)


lemma detect_intent_classify: "detect_intent e u = classify e INTENTS u"
  unfolding detect_intent_def by (rule detect_in_classify [OF INTENTS_positive])

lemma detect_intent_none:
  "firing e INTENTS u = [] \<Longrightarrow> detect_intent e u = (S ''unknown'', 0)"
  by (simp add: detect_intent_classify classify_def winner_def)

lemma detect_intent_some:
  assumes "firing e INTENTS u \<noteq> []"
  shows "\<exists>r \<in> set INTENTS. detect_intent e u = (fst r, cf r)"
proof -
  from winner_split [OF assms] obtain pre r post where
    w: "firing e INTENTS u = pre @ r # post" "winner (firing e INTENTS u) = Some r"
    by blast
  from w(1) have "r \<in> set (firing e INTENTS u)" by simp
  then have "r \<in> set INTENTS" by (simp add: firing_def)
  moreover from w(2) have "detect_intent e u = (fst r, cf r)"
    by (simp add: detect_intent_classify classify_def)
  ultimately show ?thesis by blast
qed

lemma jokes_nonempty: "jokes \<noteq> []"
  by (simp add: jokes_def)

lemma get_random_joke_ok: "\<exists>t. get_random_joke e = Inr t"
  by (simp add: get_random_joke_def random_choice_def jokes_nonempty)

lemma INTENTS_names: "map fst INTENTS =
  [S ''greeting'', S ''wellbeing'', S ''capabilities'', S ''help'', S ''time'', S ''date'',
   S ''thanks'', S ''goodbye'', S ''name'', S ''joke'']"
  by (simp add: INTENTS_def)

lemma INTENTS_distinct: "distinct (map fst INTENTS)"
  unfolding INTENTS_names by (simp add: S_def)

lemma INTENTS_not_unknown: "S ''unknown'' \<notin> set (map fst INTENTS)"
  unfolding INTENTS_names by (simp add: S_def)

lemma INTENTS_confident: "list_all (\<lambda>r. cf r \<ge> 8 / 10) INTENTS"
  by (simp add: INTENTS_def get_confidence_def)

lemma INTENTS_responses:
  "list_all (\<lambda>r. responses (snd r) \<noteq> [] \<and>
       list_all (\<lambda>x. \<exists>t. resolve e x = Inr t) (responses (snd r))) INTENTS"
  using get_random_joke_ok [of e]
  by (simp add: INTENTS_def resolve_def time_reply_def date_reply_def)

lemma choose_reply_ai:
  assumes "firing e INTENTS u = []"
  shows "choose_reply e c cid u (detect_intent e u) = Inr (ask_openai e c u cid, S ''ai'')"
  by (simp add: detect_intent_none [OF assms] choose_reply_def)

lemma choose_reply_intent:
  assumes "firing e INTENTS u \<noteq> []"
  shows "\<exists>label d r b.
           detect_intent e u = (label, get_confidence d) \<and> label \<noteq> S ''unknown'' \<and>
           map_of INTENTS label = Some d \<and> r \<in> set (responses d) \<and> resolve e r = Inr b \<and>
           choose_reply e c cid u (detect_intent e u) = Inr (b, S ''intent'')"
proof -
  from detect_intent_some [OF assms] obtain r where
    r: "r \<in> set INTENTS" "detect_intent e u = (fst r, cf r)" by blast
  from r(1) INTENTS_not_unknown have name: "fst r \<noteq> S ''unknown''" by force
  from r(1) INTENTS_confident have conf: "cf r \<ge> 8 / 10" by (simp add: list_all_iff)
  from r(1) have "(fst r, snd r) \<in> set INTENTS" by simp
  with INTENTS_distinct have look: "map_of INTENTS (fst r) = Some (snd r)"
    by (rule map_of_is_SomeI)
  from r(1) INTENTS_responses [of e]
  have ne: "responses (snd r) \<noteq> []"
    and ok: "\<forall>x \<in> set (responses (snd r)). \<exists>t. resolve e x = Inr t"
    by (simp_all add: list_all_iff)
  let ?x = "responses (snd r) ! (draw_response e mod length (responses (snd r)))"
  from ne have pick: "random_choice (draw_response e) (responses (snd r)) = Inr ?x"
    by (simp add: random_choice_def)
  from ne have mem: "?x \<in> set (responses (snd r))" by simp
  with ok obtain t where t: "resolve e ?x = Inr t" by blast
  have "choose_reply e c cid u (detect_intent e u) = Inr (t, S ''intent'')"
    using name conf by (simp add: r(2) choose_reply_def look pick t)
  with name r(2) look mem t show ?thesis by blast
qed

lemma chat_branch_ok:
  assumes "choose_reply e c cid u (detect_intent e u) = Inr (b, src)"
  shows "chat_branch e c cid u =
     (\<lparr>status = 200,
       body = [(S ''reply'', JString b), (S ''timestamp'', JString (now_response e)),
               (S ''source'', JString src),
               (S ''intent'', if fst (detect_intent e u) \<noteq> S ''unknown''
                              then JString (fst (detect_intent e u)) else JNull)]\<rparr>,
      save_message (save_message c cid (S ''user'') u (uuid_user e) (now_user e))
        cid (S ''bot'') b (uuid_bot e) (now_bot e))"
  using assms by (simp add: chat_branch_def Let_def)

lemma command_branch_ok:
  assumes "handle_local_command e c u cid = Inr (r, c1)"
  shows "command_branch e c cid u =
     (\<lparr>status = 200,
       body = [(S ''reply'', JString (reply r)), (S ''type'', JString (rtype r)),
               (S ''timestamp'', JString (now_response e))]\<rparr>,
      save_message (save_message c1 cid (S ''user'') u (uuid_user e) (now_user e))
        cid (S ''bot'') (reply r) (uuid_bot e) (now_bot e))"
  using assms by (simp add: command_branch_def Let_def)

lemma last_n_le: "length (last_n k xs) \<le> k"
  by (simp add: last_n_def)


lemma um_clear: "user_message_of (Some (S '' /clear '')) = S ''/clear''"
  by (simp add: user_message_of_def strip_def S_def is_space_def)

lemma v_clear: "validate_message (S ''/clear'') = Inr (True, None)"
  by (simp add: validate_message_def S_def strip_def is_space_def index0_def MAX_MESSAGE_LENGTH_def)

lemma sw_clear: "startswith (S ''/clear'') (S ''/'')"
  by (simp add: startswith_def S_def)

lemma h_clear: "handle_local_command example_env Map.empty (S ''/clear'') (S ''s1'')
  = Inr (\<lparr>reply = [128237] @ S '' No history to clear.'', rtype = S ''info'',
          r_export_data = None\<rparr>, Map.empty)"
  by (simp add: handle_local_command_def example_env_def ascii_lower_def strip_def S_def
      is_space_def split_maxsplit1_def handlers_def clear_conversation_history_def Let_def)

text \<open>
  C6. When the text that \<open>get_response\<close> validates is empty or whitespace only, longer than
  2000 characters, or fails the spam test, validation fails with a message, the answer is
  the status 400 with \<open>{"error": message}\<close>, and the conversations are returned exactly
  as they were: nothing is appended to the session.
\<close>

theorem rejected_input_not_saved:
  "(strip (user_message_of m) = [] \<or> length (user_message_of m) > MAX_MESSAGE_LENGTH
      \<or> first_char_dominates (user_message_of m)) \<longrightarrow>
   (\<exists>t. validate_message (user_message_of m) = Inr (False, Some t) \<and>
        get_response e c cid (Body m) =
          (\<lparr>status = 400, body = [(S ''error'', JString t)]\<rparr>, c) \<and>
        get_msgs (snd (get_response e c cid (Body m))) cid = get_msgs c cid)"
proof
  let ?u = "user_message_of m"
  assume bad: "strip ?u = [] \<or> length ?u > MAX_MESSAGE_LENGTH \<or> first_char_dominates ?u"
  have "\<exists>t. validate_message ?u = Inr (False, Some t)"
  proof (cases "strip ?u = []")
    case True
    from validate_blank [OF True] show ?thesis by blast
  next
    case False
    show ?thesis
    proof (cases "length ?u > MAX_MESSAGE_LENGTH")
      case True
      from validate_long [OF False True] show ?thesis by blast
    next
      case long: False
      with bad False have "first_char_dominates ?u" by blast
      with validate_rest [OF False long] show ?thesis by simp
    qed
  qed
  then obtain t where t: "validate_message ?u = Inr (False, Some t)" by blast
  from get_response_invalid [OF t, of e c cid]
  have "get_response e c cid (Body m) = (\<lparr>status = 400, body = [(S ''error'', JString t)]\<rparr>, c)"
    by simp
  with t show "\<exists>t. validate_message ?u = Inr (False, Some t) \<and>
        get_response e c cid (Body m) =
          (\<lparr>status = 400, body = [(S ''error'', JString t)]\<rparr>, c) \<and>
        get_msgs (snd (get_response e c cid (Body m))) cid = get_msgs c cid"
    by simp
qed

theorem rejected_input_not_saved_witness:
  "first_char_dominates (user_message_of (Some (S ''aaaaaaaaaa''))) \<and>
   get_response example_env
     (Map.empty (S ''s1'' \<mapsto> [\<lparr>msg_id = S ''a'', role = S ''user'', message = S ''hi'',
                                  timestamp = S ''11:59 AM''\<rparr>]))
     (S ''s1'') (Body (Some (S ''aaaaaaaaaa''))) =
     (\<lparr>status = 400, body = [(S ''error'', JString (S ''Message appears to be spam.''))]\<rparr>,
      Map.empty (S ''s1'' \<mapsto> [\<lparr>msg_id = S ''a'', role = S ''user'', message = S ''hi'',
                                  timestamp = S ''11:59 AM''\<rparr>]))"
proof -
  let ?c = "Map.empty (S ''s1'' \<mapsto> [\<lparr>msg_id = S ''a'', role = S ''user'', message = S ''hi'',
                                  timestamp = S ''11:59 AM''\<rparr>])"
  have u: "user_message_of (Some (S ''aaaaaaaaaa'')) = S ''aaaaaaaaaa''"
    by (simp add: user_message_of_def strip_def S_def is_space_def)
  have d: "first_char_dominates (S ''aaaaaaaaaa'')"
    by (simp add: first_char_dominates_def S_def)
  have v: "validate_message (S ''aaaaaaaaaa'') = Inr (False, Some (S ''Message appears to be spam.''))"
    by (simp add: validate_message_def S_def strip_def is_space_def index0_def
          MAX_MESSAGE_LENGTH_def)
  from d rejected_input_not_saved [of "Some (S ''aaaaaaaaaa'')" example_env ?c "S ''s1''"]
  obtain t where t: "validate_message (S ''aaaaaaaaaa'') = Inr (False, Some t)"
     "get_response example_env ?c (S ''s1'') (Body (Some (S ''aaaaaaaaaa''))) =
          (\<lparr>status = 400, body = [(S ''error'', JString t)]\<rparr>, ?c)"
    unfolding u by blast
  from t(1) v have "t = S ''Message appears to be spam.''" by simp
  with t(2) d show ?thesis by (simp add: u)
qed

text \<open>
  C4, as the claim states it, fails on the command path: the answer to \<open>/clear\<close> is
  \<open>{reply, type, timestamp}\<close> and has no \<open>source\<close>.
\<close>

theorem command_reply_has_no_source_counterexample:
  "get_response example_env no_conversations (S ''s1'') (Body (Some (S '' /clear ''))) =
     (\<lparr>status = 200,
       body = [(S ''reply'', JString ([128237] @ S '' No history to clear.'')),
               (S ''type'', JString (S ''info'')),
               (S ''timestamp'', JString (S ''12:00 PM''))]\<rparr>,
      save_message
        (save_message no_conversations (S ''s1'') (S ''user'') (S ''/clear'') (S ''u1'') (S ''12:00 PM''))
        (S ''s1'') (S ''bot'') ([128237] @ S '' No history to clear.'') (S ''b1'') (S ''12:00 PM''))
   \<and> map_of (body (fst (get_response example_env no_conversations (S ''s1'')
                 (Body (Some (S '' /clear '')))))) (S ''source'') = None"
proof -
  note [simp] = no_conversations_def
  have g: "get_response example_env no_conversations (S ''s1'') (Body (Some (S '' /clear '')))
        = command_branch example_env no_conversations (S ''s1'') (S ''/clear'')"
    using get_response_valid [of "Some (S '' /clear '')" None example_env no_conversations "S ''s1''"]
    by (simp add: um_clear v_clear sw_clear)
  have e: "uuid_user example_env = S ''u1''" "now_user example_env = S ''12:00 PM''"
    "uuid_bot example_env = S ''b1''" "now_bot example_env = S ''12:00 PM''"
    "now_response example_env = S ''12:00 PM''"
    by (simp_all add: example_env_def)
  have r: "get_response example_env no_conversations (S ''s1'') (Body (Some (S '' /clear ''))) =
     (\<lparr>status = 200,
       body = [(S ''reply'', JString ([128237] @ S '' No history to clear.'')),
               (S ''type'', JString (S ''info'')),
               (S ''timestamp'', JString (S ''12:00 PM''))]\<rparr>,
      save_message
        (save_message no_conversations (S ''s1'') (S ''user'') (S ''/clear'') (S ''u1'') (S ''12:00 PM''))
        (S ''s1'') (S ''bot'') ([128237] @ S '' No history to clear.'') (S ''b1'') (S ''12:00 PM''))"
    unfolding g using command_branch_ok [OF h_clear] by (simp add: e)
  have "map_of [(S ''reply'', JString ([128237] @ S '' No history to clear.'')),
               (S ''type'', JString (S ''info'')),
               (S ''timestamp'', JString (S ''12:00 PM''))] (S ''source'') = None"
    by (simp add: S_def)
  with r show ?thesis by simp
qed


text \<open>
  C4, amended. A validation failure is answered with status 400 and \<open>{error}\<close>. Every valid
  message that does not start with \<open>/\<close> is answered with status 200 and
  \<open>{reply, timestamp, source, intent}\<close>: when no intent fires, \<open>source\<close> is \<open>ai\<close> and
  \<open>intent\<close> is null; when one fires, \<open>source\<close> is \<open>intent\<close>, \<open>intent\<close> is the label that
  \<open>detect_intent\<close> returns, a key of \<open>INTENTS\<close>, and the reply is one of the responses
  of that intent. A command that \<open>handle_local_command\<close> handles is answered with status
  200 and \<open>{reply, type, timestamp}\<close>, without a source label.
\<close>

theorem chat_response_shape:
  "(validate_message (user_message_of m) = Inr (False, err) \<longrightarrow>
      (\<exists>t. err = Some t \<and>
           get_response e c cid (Body m) =
             (\<lparr>status = 400, body = [(S ''error'', JString t)]\<rparr>, c))) \<and>
   (validate_message (user_message_of m) = Inr (True, err) \<and>
    \<not> startswith (user_message_of m) (S ''/'') \<and>
    firing e INTENTS (user_message_of m) = [] \<longrightarrow>
      fst (get_response e c cid (Body m)) =
        \<lparr>status = 200,
         body = [(S ''reply'', JString (ask_openai e c (user_message_of m) cid)),
                 (S ''timestamp'', JString (now_response e)),
                 (S ''source'', JString (S ''ai'')), (S ''intent'', JNull)]\<rparr>) \<and>
   (validate_message (user_message_of m) = Inr (True, err) \<and>
    \<not> startswith (user_message_of m) (S ''/'') \<and>
    firing e INTENTS (user_message_of m) \<noteq> [] \<longrightarrow>
      (\<exists>label d r b.
         detect_intent e (user_message_of m) = (label, get_confidence d) \<and>
         label \<noteq> S ''unknown'' \<and> map_of INTENTS label = Some d \<and>
         r \<in> set (responses d) \<and> resolve e r = Inr b \<and>
         fst (get_response e c cid (Body m)) =
           \<lparr>status = 200,
            body = [(S ''reply'', JString b), (S ''timestamp'', JString (now_response e)),
                    (S ''source'', JString (S ''intent'')),
                    (S ''intent'', JString label)]\<rparr>)) \<and>
   (validate_message (user_message_of m) = Inr (True, err) \<and>
    startswith (user_message_of m) (S ''/'') \<and>
    handle_local_command e c (user_message_of m) cid = Inr (r0, c1) \<longrightarrow>
      fst (get_response e c cid (Body m)) =
        \<lparr>status = 200,
         body = [(S ''reply'', JString (reply r0)), (S ''type'', JString (rtype r0)),
                 (S ''timestamp'', JString (now_response e))]\<rparr>)"
proof (intro conjI impI)
  let ?u = "user_message_of m"
  show "\<exists>t. err = Some t \<and>
           get_response e c cid (Body m) =
             (\<lparr>status = 400, body = [(S ''error'', JString t)]\<rparr>, c)"
    if bad: "validate_message ?u = Inr (False, err)"
  proof -
    have "\<exists>t. err = Some t"
    proof (cases "strip ?u = []")
      case True
      from validate_blank [OF True] bad show ?thesis by simp
    next
      case False
      show ?thesis
      proof (cases "length ?u > MAX_MESSAGE_LENGTH")
        case True
        from validate_long [OF False True] bad show ?thesis by simp
      next
        case long: False
        from validate_rest [OF False long] bad show ?thesis
          by (simp split: if_splits)
      qed
    qed
    then obtain t where "err = Some t" by blast
    with get_response_invalid [OF bad, of e c cid] show ?thesis by simp
  qed
  show "fst (get_response e c cid (Body m)) =
        \<lparr>status = 200,
         body = [(S ''reply'', JString (ask_openai e c ?u cid)),
                 (S ''timestamp'', JString (now_response e)),
                 (S ''source'', JString (S ''ai'')), (S ''intent'', JNull)]\<rparr>"
    if h: "validate_message ?u = Inr (True, err) \<and> \<not> startswith ?u (S ''/'') \<and>
           firing e INTENTS ?u = []"
  proof -
    from h get_response_valid [of m err e c cid]
    have g: "get_response e c cid (Body m) = chat_branch e c cid ?u" by simp
    from h have none: "firing e INTENTS ?u = []" by simp
    have d: "fst (detect_intent e ?u) = S ''unknown''"
      by (simp add: detect_intent_none [OF none])
    from chat_branch_ok [OF choose_reply_ai [OF none]] g d show ?thesis by simp
  qed
  show "\<exists>label d r b.
         detect_intent e ?u = (label, get_confidence d) \<and>
         label \<noteq> S ''unknown'' \<and> map_of INTENTS label = Some d \<and>
         r \<in> set (responses d) \<and> resolve e r = Inr b \<and>
         fst (get_response e c cid (Body m)) =
           \<lparr>status = 200,
            body = [(S ''reply'', JString b), (S ''timestamp'', JString (now_response e)),
                    (S ''source'', JString (S ''intent'')),
                    (S ''intent'', JString label)]\<rparr>"
    if h: "validate_message ?u = Inr (True, err) \<and> \<not> startswith ?u (S ''/'') \<and>
           firing e INTENTS ?u \<noteq> []"
  proof -
    from h get_response_valid [of m err e c cid]
    have g: "get_response e c cid (Body m) = chat_branch e c cid ?u" by simp
    from h have some: "firing e INTENTS ?u \<noteq> []" by simp
    from choose_reply_intent [OF some, of c cid] obtain label d r b where
      w: "detect_intent e ?u = (label, get_confidence d)" "label \<noteq> S ''unknown''"
         "map_of INTENTS label = Some d" "r \<in> set (responses d)" "resolve e r = Inr b"
         "choose_reply e c cid ?u (detect_intent e ?u) = Inr (b, S ''intent'')"
      by blast
    from chat_branch_ok [OF w(6)] g w(1,2)
    have "fst (get_response e c cid (Body m)) =
           \<lparr>status = 200,
            body = [(S ''reply'', JString b), (S ''timestamp'', JString (now_response e)),
                    (S ''source'', JString (S ''intent'')),
                    (S ''intent'', JString label)]\<rparr>"
      by simp
    with w(1-5) show ?thesis by blast
  qed
  show "fst (get_response e c cid (Body m)) =
        \<lparr>status = 200,
         body = [(S ''reply'', JString (reply r0)), (S ''type'', JString (rtype r0)),
                 (S ''timestamp'', JString (now_response e))]\<rparr>"
    if h: "validate_message ?u = Inr (True, err) \<and> startswith ?u (S ''/'') \<and>
           handle_local_command e c ?u cid = Inr (r0, c1)"
  proof -
    from h get_response_valid [of m err e c cid]
    have g: "get_response e c cid (Body m) = command_branch e c cid ?u" by simp
    from h command_branch_ok [of e c ?u cid r0 c1] g show ?thesis by simp
  qed
qed

theorem chat_response_shape_witness:
  "validate_message (user_message_of (Some (S ''aaaaaaaaaa'')))
     = Inr (False, Some (S ''Message appears to be spam.'')) \<and>
   get_response example_env Map.empty (S ''s1'') (Body (Some (S ''aaaaaaaaaa''))) =
     (\<lparr>status = 400, body = [(S ''error'', JString (S ''Message appears to be spam.''))]\<rparr>,
      Map.empty) \<and>
   validate_message (user_message_of (Some (S ''zebra''))) = Inr (True, None) \<and>
   \<not> startswith (user_message_of (Some (S ''zebra''))) (S ''/'') \<and>
   firing (example_env\<lparr>re_search := \<lambda>p s. False\<rparr>) INTENTS
     (user_message_of (Some (S ''zebra''))) = [] \<and>
   fst (get_response (example_env\<lparr>re_search := \<lambda>p s. False\<rparr>) Map.empty (S ''s1'')
          (Body (Some (S ''zebra'')))) =
     \<lparr>status = 200,
      body = [(S ''reply'', JString AI_NOT_CONFIGURED),
              (S ''timestamp'', JString (S ''12:00 PM'')),
              (S ''source'', JString (S ''ai'')), (S ''intent'', JNull)]\<rparr> \<and>
   firing (example_env\<lparr>re_search := \<lambda>p s. True\<rparr>) INTENTS
     (user_message_of (Some (S ''zebra''))) \<noteq> [] \<and>
   (\<exists>b. fst (get_response (example_env\<lparr>re_search := \<lambda>p s. True\<rparr>) Map.empty (S ''s1'')
               (Body (Some (S ''zebra'')))) =
     \<lparr>status = 200,
      body = [(S ''reply'', JString b), (S ''timestamp'', JString (S ''12:00 PM'')),
              (S ''source'', JString (S ''intent'')),
              (S ''intent'', JString (S ''time''))]\<rparr>) \<and>
   startswith (user_message_of (Some (S '' /clear ''))) (S ''/'') \<and>
   fst (get_response example_env Map.empty (S ''s1'') (Body (Some (S '' /clear '')))) =
     \<lparr>status = 200,
      body = [(S ''reply'', JString ([128237] @ S '' No history to clear.'')),
              (S ''type'', JString (S ''info'')),
              (S ''timestamp'', JString (S ''12:00 PM''))]\<rparr>"
proof -
  let ?eF = "example_env\<lparr>re_search := \<lambda>p s. False\<rparr>"
  let ?eT = "example_env\<lparr>re_search := \<lambda>p s. True\<rparr>"
  have u1: "user_message_of (Some (S ''aaaaaaaaaa'')) = S ''aaaaaaaaaa''"
    by (simp add: user_message_of_def strip_def S_def is_space_def)
  have v1: "validate_message (S ''aaaaaaaaaa'') = Inr (False, Some (S ''Message appears to be spam.''))"
    by (simp add: validate_message_def S_def strip_def is_space_def index0_def
          MAX_MESSAGE_LENGTH_def)
  have u2: "user_message_of (Some (S ''zebra'')) = S ''zebra''"
    by (simp add: user_message_of_def strip_def S_def is_space_def)
  have v2: "validate_message (S ''zebra'') = Inr (True, None)"
    by (simp add: validate_message_def S_def strip_def is_space_def index0_def
          MAX_MESSAGE_LENGTH_def)
  have s2: "\<not> startswith (S ''zebra'') (S ''/'')"
    by (simp add: startswith_def S_def)
  have fF: "firing ?eF INTENTS (S ''zebra'') = []"
    by (simp add: firing_def fires_def INTENTS_def)
  have fT: "firing ?eT INTENTS (S ''zebra'') = INTENTS"
    by (simp add: firing_def fires_def INTENTS_def)
  have neT: "firing ?eT INTENTS (S ''zebra'') \<noteq> []"
    unfolding fT by (simp add: INTENTS_def)
  have dT: "detect_intent ?eT (S ''zebra'') = (S ''time'', 95 / 100)"
    unfolding detect_intent_classify classify_def fT
    by (simp add: winner_def INTENTS_def get_confidence_def)
  have n: "now_response example_env = S ''12:00 PM''" "now_response ?eF = S ''12:00 PM''"
    "now_response ?eT = S ''12:00 PM''"
    by (simp_all add: example_env_def)
  have ai: "ask_openai ?eF Map.empty (S ''zebra'') (S ''s1'') = AI_NOT_CONFIGURED"
    by (simp add: ask_openai_def example_env_def)
  note t1 = chat_response_shape [where e = example_env and c = Map.empty and cid = "S ''s1''"
      and m = "Some (S ''aaaaaaaaaa'')" and err = "Some (S ''Message appears to be spam.'')"]
  note t2 = chat_response_shape [where e = ?eF and c = Map.empty and cid = "S ''s1''"
      and m = "Some (S ''zebra'')" and err = None]
  note t3 = chat_response_shape [where e = ?eT and c = Map.empty and cid = "S ''s1''"
      and m = "Some (S ''zebra'')" and err = None]
  note t4 = chat_response_shape [where e = example_env and c = Map.empty and cid = "S ''s1''"
      and m = "Some (S '' /clear '')" and err = None
      and ?r0.0 = "\<lparr>reply = [128237] @ S '' No history to clear.'', rtype = S ''info'',
        r_export_data = None\<rparr>" and ?c1.0 = Map.empty]
  from t1 v1 have a: "get_response example_env Map.empty (S ''s1'') (Body (Some (S ''aaaaaaaaaa''))) =
     (\<lparr>status = 400, body = [(S ''error'', JString (S ''Message appears to be spam.''))]\<rparr>,
      Map.empty)"
    by (simp add: u1)
  from t2 v2 s2 fF
  have "fst (get_response ?eF Map.empty (S ''s1'') (Body (Some (S ''zebra'')))) =
     \<lparr>status = 200,
      body = [(S ''reply'', JString (ask_openai ?eF Map.empty (S ''zebra'') (S ''s1''))),
              (S ''timestamp'', JString (now_response ?eF)),
              (S ''source'', JString (S ''ai'')), (S ''intent'', JNull)]\<rparr>"
    unfolding u2 by blast
  then have b: "fst (get_response ?eF Map.empty (S ''s1'') (Body (Some (S ''zebra'')))) =
     \<lparr>status = 200,
      body = [(S ''reply'', JString AI_NOT_CONFIGURED),
              (S ''timestamp'', JString (S ''12:00 PM'')),
              (S ''source'', JString (S ''ai'')), (S ''intent'', JNull)]\<rparr>"
    by (simp only: ai n)
  from t3 v2 s2 neT obtain label d b0 where
    w: "detect_intent ?eT (S ''zebra'') = (label, get_confidence d)"
       "fst (get_response ?eT Map.empty (S ''s1'') (Body (Some (S ''zebra'')))) =
           \<lparr>status = 200,
            body = [(S ''reply'', JString b0), (S ''timestamp'', JString (now_response ?eT)),
                    (S ''source'', JString (S ''intent'')),
                    (S ''intent'', JString label)]\<rparr>"
    unfolding u2 by blast
  from w(1) dT have "label = S ''time''" by simp
  with w(2) have c: "\<exists>b. fst (get_response ?eT Map.empty (S ''s1'') (Body (Some (S ''zebra'')))) =
     \<lparr>status = 200,
      body = [(S ''reply'', JString b), (S ''timestamp'', JString (S ''12:00 PM'')),
              (S ''source'', JString (S ''intent'')),
              (S ''intent'', JString (S ''time''))]\<rparr>"
    by (simp only: n) blast
  from t4 v_clear sw_clear h_clear
  have d: "fst (get_response example_env Map.empty (S ''s1'') (Body (Some (S '' /clear '')))) =
     \<lparr>status = 200,
      body = [(S ''reply'', JString ([128237] @ S '' No history to clear.'')),
              (S ''type'', JString (S ''info'')),
              (S ''timestamp'', JString (S ''12:00 PM''))]\<rparr>"
    by (simp add: um_clear n)
  from a b c d v1 v2 s2 fF neT sw_clear show ?thesis
    by (simp only: u1 u2 um_clear) blast
qed

lemma ai_path_iff:
  "(\<not> (fst (detect_intent e u) \<noteq> S ''unknown'' \<and> snd (detect_intent e u) \<ge> 8 / 10))
   = (firing e INTENTS u = [])"
proof (cases "firing e INTENTS u = []")
  case True
  then show ?thesis by (simp add: detect_intent_none)
next
  case False
  from detect_intent_some [OF False] obtain r where
    r: "r \<in> set INTENTS" "detect_intent e u = (fst r, cf r)" by blast
  from r(1) INTENTS_not_unknown have "fst r \<noteq> S ''unknown''" by force
  moreover from r(1) INTENTS_confident have "cf r \<ge> 8 / 10" by (simp add: list_all_iff)
  ultimately show ?thesis using False r(2) by simp
qed

lemma ask_openai_eq:
  "ask_openai e c u cid =
     (case client e of
        None \<Rightarrow> [128308] @ S '' AI features are currently unavailable. OpenAI API key not configured.''
      | Some create \<Rightarrow>
          (case create
                  ([\<lparr>c_role = S ''system'',
                     content = S ''You are a helpful, friendly, and concise AI assistant. ''
                       @ S ''Provide clear and accurate responses. Use emojis sparingly for friendliness.''\<rparr>]
                   @ map (\<lambda>msg. \<lparr>c_role = (if role msg = S ''bot'' then S ''assistant''
                                            else S ''user''),
                                  content = message msg\<rparr>)
                       (drop (length (get_msgs c cid) - 8) (get_msgs c cid))
                   @ [\<lparr>c_role = S ''user'', content = u\<rparr>]) of
             Inr text \<Rightarrow> strip text
           | Inl err \<Rightarrow> [128308] @ S '' I'm having trouble connecting to my AI brain right now. ''
                         @ S ''Please try again in a moment.''))"
proof -
  have ce: "context_entry
        = (\<lambda>msg. \<lparr>c_role = (if role msg = S ''bot'' then S ''assistant'' else S ''user''),
                     content = message msg\<rparr>)"
    by (intro ext) (simp add: context_entry_def)
  show ?thesis
    unfolding ask_openai_def openai_messages_def last_n_def CONTEXT_WINDOW_def
      SYSTEM_PROMPT_def AI_NOT_CONFIGURED_def AI_FAILED_def Let_def ce
    by (rule refl)
qed

text \<open>
  C8. For a valid message that is no command, the AI path is taken when the test
  \<open>intent != 'unknown' and confidence >= 0.8\<close> fails, which is exactly when no intent
  fires. The client is then called with the system instruction, then the last 8 entries
  (all of them when there are fewer) that the session held before this request, each with
  its text as content and with the role \<open>assistant\<close> for a \<open>bot\<close> entry and \<open>user\<close>
  otherwise, then the current message with the role \<open>user\<close>; the reply is the stripped
  text it returns. Without a client the reply is the fixed text that names the missing
  API key, and when the call raises it is the fixed text that asks to try again. In each
  case the answer has status 200 and the source \<open>ai\<close>.
\<close>

theorem ai_fallback_reply:
  "validate_message (user_message_of m) = Inr (True, None) \<and>
   \<not> startswith (user_message_of m) (S ''/'') \<and>
   \<not> (fst (detect_intent e (user_message_of m)) \<noteq> S ''unknown'' \<and>
      snd (detect_intent e (user_message_of m)) \<ge> 8 / 10) \<longrightarrow>
     (let u = user_message_of m;
          history = get_msgs c cid;
          context = drop (length history - 8) history;
          sent = [\<lparr>c_role = S ''system'',
                   content = S ''You are a helpful, friendly, and concise AI assistant. ''
                     @ S ''Provide clear and accurate responses. Use emojis sparingly for friendliness.''\<rparr>]
                 @ map (\<lambda>msg. \<lparr>c_role = (if role msg = S ''bot'' then S ''assistant''
                                          else S ''user''),
                                content = message msg\<rparr>) context
                 @ [\<lparr>c_role = S ''user'', content = u\<rparr>];
          answer =
            (case client e of
               None \<Rightarrow>
                 [128308] @ S '' AI features are currently unavailable. OpenAI API key not configured.''
             | Some create \<Rightarrow>
                 (case create sent of
                    Inr text \<Rightarrow> strip text
                  | Inl err \<Rightarrow>
                      [128308] @ S '' I'm having trouble connecting to my AI brain right now. ''
                      @ S ''Please try again in a moment.''))
      in firing e INTENTS u = [] \<and> length context = min 8 (length history) \<and>
         fst (get_response e c cid (Body m)) =
           \<lparr>status = 200,
            body = [(S ''reply'', JString answer),
                    (S ''timestamp'', JString (now_response e)),
                    (S ''source'', JString (S ''ai'')),
                    (S ''intent'', JNull)]\<rparr>)"
proof
  let ?u = "user_message_of m"
  assume h: "validate_message ?u = Inr (True, None) \<and> \<not> startswith ?u (S ''/'') \<and>
             \<not> (fst (detect_intent e ?u) \<noteq> S ''unknown'' \<and> snd (detect_intent e ?u) \<ge> 8 / 10)"
  then have none: "firing e INTENTS ?u = []" by (simp only: ai_path_iff)
  from h get_response_valid [of m None e c cid]
  have g: "get_response e c cid (Body m) = chat_branch e c cid ?u" by simp
  have d: "fst (detect_intent e ?u) = S ''unknown''"
    by (simp add: detect_intent_none [OF none])
  have l: "length (drop (length (get_msgs c cid) - 8) (get_msgs c cid))
           = min 8 (length (get_msgs c cid))"
    by simp
  from chat_branch_ok [OF choose_reply_ai [OF none]] g d
  have r: "fst (get_response e c cid (Body m)) =
           \<lparr>status = 200,
            body = [(S ''reply'', JString (ask_openai e c ?u cid)),
                    (S ''timestamp'', JString (now_response e)),
                    (S ''source'', JString (S ''ai'')),
                    (S ''intent'', JNull)]\<rparr>"
    by simp
  show "let u = user_message_of m;
          history = get_msgs c cid;
          context = drop (length history - 8) history;
          sent = [\<lparr>c_role = S ''system'',
                   content = S ''You are a helpful, friendly, and concise AI assistant. ''
                     @ S ''Provide clear and accurate responses. Use emojis sparingly for friendliness.''\<rparr>]
                 @ map (\<lambda>msg. \<lparr>c_role = (if role msg = S ''bot'' then S ''assistant''
                                          else S ''user''),
                                content = message msg\<rparr>) context
                 @ [\<lparr>c_role = S ''user'', content = u\<rparr>];
          answer =
            (case client e of
               None \<Rightarrow>
                 [128308] @ S '' AI features are currently unavailable. OpenAI API key not configured.''
             | Some create \<Rightarrow>
                 (case create sent of
                    Inr text \<Rightarrow> strip text
                  | Inl err \<Rightarrow>
                      [128308] @ S '' I'm having trouble connecting to my AI brain right now. ''
                      @ S ''Please try again in a moment.''))
      in firing e INTENTS u = [] \<and> length context = min 8 (length history) \<and>
         fst (get_response e c cid (Body m)) =
           \<lparr>status = 200,
            body = [(S ''reply'', JString answer),
                    (S ''timestamp'', JString (now_response e)),
                    (S ''source'', JString (S ''ai'')),
                    (S ''intent'', JNull)]\<rparr>"
    unfolding Let_def ask_openai_eq [symmetric]
    using none l r by blast
qed

theorem ai_fallback_reply_witness:
  "\<not> (fst (detect_intent (example_env\<lparr>re_search := \<lambda>p s. False, client := Some echo_client\<rparr>)
             (user_message_of (Some (S ''zebra'')))) \<noteq> S ''unknown'' \<and>
      snd (detect_intent (example_env\<lparr>re_search := \<lambda>p s. False, client := Some echo_client\<rparr>)
             (user_message_of (Some (S ''zebra'')))) \<ge> 8 / 10) \<and>
   fst (get_response (example_env\<lparr>re_search := \<lambda>p s. False, client := Some echo_client\<rparr>)
          (no_conversations (S ''s1'' \<mapsto> example_history)) (S ''s1'')
          (Body (Some (S ''zebra'')))) =
     \<lparr>status = 200,
      body = [(S ''reply'', JString (S ''user:m1'')),
              (S ''timestamp'', JString (S ''12:00 PM'')),
              (S ''source'', JString (S ''ai'')),
              (S ''intent'', JNull)]\<rparr> \<and>
   fst (get_response
          (example_env\<lparr>re_search := \<lambda>p s. False,
                        client := Some (\<lambda>ms. Inl (OtherError (S ''timed out'')))\<rparr>)
          (no_conversations (S ''s1'' \<mapsto> example_history)) (S ''s1'')
          (Body (Some (S ''zebra'')))) =
     \<lparr>status = 200,
      body = [(S ''reply'', JString AI_FAILED),
              (S ''timestamp'', JString (S ''12:00 PM'')),
              (S ''source'', JString (S ''ai'')),
              (S ''intent'', JNull)]\<rparr> \<and>
   fst (get_response (example_env\<lparr>re_search := \<lambda>p s. False\<rparr>)
          (no_conversations (S ''s1'' \<mapsto> example_history)) (S ''s1'')
          (Body (Some (S ''zebra'')))) =
     \<lparr>status = 200,
      body = [(S ''reply'', JString AI_NOT_CONFIGURED),
              (S ''timestamp'', JString (S ''12:00 PM'')),
              (S ''source'', JString (S ''ai'')),
              (S ''intent'', JNull)]\<rparr>"
proof -
  let ?eE = "example_env\<lparr>re_search := \<lambda>p s. False, client := Some echo_client\<rparr>"
  let ?eX = "example_env\<lparr>re_search := \<lambda>p s. False,
                          client := Some (\<lambda>ms. Inl (OtherError (S ''timed out'')))\<rparr>"
  let ?eN = "example_env\<lparr>re_search := \<lambda>p s. False\<rparr>"
  let ?c = "no_conversations (S ''s1'' \<mapsto> example_history)"
  have u: "user_message_of (Some (S ''zebra'')) = S ''zebra''"
    by (simp add: user_message_of_def strip_def S_def is_space_def)
  have v: "validate_message (S ''zebra'') = Inr (True, None)"
    by (simp add: validate_message_def S_def strip_def is_space_def index0_def
          MAX_MESSAGE_LENGTH_def)
  have s: "\<not> startswith (S ''zebra'') (S ''/'')"
    by (simp add: startswith_def S_def)
  have fE: "firing ?eE INTENTS (S ''zebra'') = []"
    by (simp add: firing_def fires_def INTENTS_def)
  have fX: "firing ?eX INTENTS (S ''zebra'') = []"
    by (simp add: firing_def fires_def INTENTS_def)
  have fN: "firing ?eN INTENTS (S ''zebra'') = []"
    by (simp add: firing_def fires_def INTENTS_def)
  have naE: "\<not> (fst (detect_intent ?eE (S ''zebra'')) \<noteq> S ''unknown'' \<and>
                 snd (detect_intent ?eE (S ''zebra'')) \<ge> 8 / 10)"
    by (simp add: detect_intent_none [OF fE])
  have naX: "\<not> (fst (detect_intent ?eX (S ''zebra'')) \<noteq> S ''unknown'' \<and>
                 snd (detect_intent ?eX (S ''zebra'')) \<ge> 8 / 10)"
    by (simp add: detect_intent_none [OF fX])
  have naN: "\<not> (fst (detect_intent ?eN (S ''zebra'')) \<noteq> S ''unknown'' \<and>
                 snd (detect_intent ?eN (S ''zebra'')) \<ge> 8 / 10)"
    by (simp add: detect_intent_none [OF fN])
  have g: "get_msgs ?c (S ''s1'') = example_history"
    by (simp add: get_msgs_def)
  have n: "now_response ?eE = S ''12:00 PM''" "now_response ?eX = S ''12:00 PM''"
    "now_response ?eN = S ''12:00 PM''" "client ?eN = None" "client ?eE = Some echo_client"
    "client ?eX = Some (\<lambda>ms. Inl (OtherError (S ''timed out'')))"
    by (simp_all add: example_env_def)
  have echo: "echo_client
      ([\<lparr>c_role = S ''system'',
         content = S ''You are a helpful, friendly, and concise AI assistant. ''
           @ S ''Provide clear and accurate responses. Use emojis sparingly for friendliness.''\<rparr>]
       @ map (\<lambda>msg. \<lparr>c_role = (if role msg = S ''bot'' then S ''assistant'' else S ''user''),
                      content = message msg\<rparr>)
           (drop (length example_history - 8) example_history)
       @ [\<lparr>c_role = S ''user'', content = S ''zebra''\<rparr>])
     = Inr (S ''user:m1'')"
    by (simp add: example_history_def echo_client_def S_def)
  have st: "strip (S ''user:m1'') = S ''user:m1''"
    by (simp add: strip_def S_def is_space_def)
  note rE = mp [OF ai_fallback_reply [of "Some (S ''zebra'')" ?eE ?c "S ''s1''",
                    unfolded u Let_def g] conjI [OF v conjI [OF s naE]]]
  note rX = mp [OF ai_fallback_reply [of "Some (S ''zebra'')" ?eX ?c "S ''s1''",
                    unfolded u Let_def g] conjI [OF v conjI [OF s naX]]]
  note rN = mp [OF ai_fallback_reply [of "Some (S ''zebra'')" ?eN ?c "S ''s1''",
                    unfolded u Let_def g] conjI [OF v conjI [OF s naN]]]
  from rE have "fst (get_response ?eE ?c (S ''s1'') (Body (Some (S ''zebra'')))) =
     \<lparr>status = 200,
      body = [(S ''reply'', JString (S ''user:m1'')),
              (S ''timestamp'', JString (S ''12:00 PM'')),
              (S ''source'', JString (S ''ai'')), (S ''intent'', JNull)]\<rparr>"
    unfolding n option.case echo sum.case st by blast
  moreover
  from rX have "fst (get_response ?eX ?c (S ''s1'') (Body (Some (S ''zebra'')))) =
     \<lparr>status = 200,
      body = [(S ''reply'', JString AI_FAILED),
              (S ''timestamp'', JString (S ''12:00 PM'')),
              (S ''source'', JString (S ''ai'')), (S ''intent'', JNull)]\<rparr>"
    unfolding n option.case sum.case AI_FAILED_def by blast
  moreover
  from rN have "fst (get_response ?eN ?c (S ''s1'') (Body (Some (S ''zebra'')))) =
     \<lparr>status = 200,
      body = [(S ''reply'', JString AI_NOT_CONFIGURED),
              (S ''timestamp'', JString (S ''12:00 PM'')),
              (S ''source'', JString (S ''ai'')), (S ''intent'', JNull)]\<rparr>"
    unfolding n option.case AI_NOT_CONFIGURED_def by blast
  ultimately show ?thesis
    using naE unfolding u by blast
qed


section \<open>Properties: clearing a history\<close>

lemma str_nat_0: "str_nat 0 = S ''0''"
  by (simp add: str_nat.simps [of 0] S_def)

lemma read_all_chats_messages:
  "cl_messages (snd (read_all_chats env st)) = cl_messages st"
  by (simp add: read_all_chats_def print_error_def print_def Let_def
      split: option.split stored_file.split)

lemma write_all_chats_messages:
  "cl_messages (write_all_chats env d st) = cl_messages st"
  by (simp add: write_all_chats_def print_error_def print_def)

lemma save_user_chat_messages:
  "save_user_chat env uid ms st = Inr st' \<Longrightarrow> cl_messages st' = cl_messages st"
  using read_all_chats_messages [of env st]
  by (auto simp: save_user_chat_def write_all_chats_messages split: prod.splits json.splits)

text \<open>
  C5, as the claim states it, fails: clearing a session that exists and is already empty is
  answered with the success result "Cleared 0 message(s)", not with the informational one.
\<close>

theorem clear_empty_session_counterexample:
  "clear_conversation_history (no_conversations (S ''s1'' \<mapsto> [])) (S ''s1'') =
     (\<lparr>reply = [128465, 65039] @ S '' Cleared '' @ S ''0'' @ S '' message(s) from your history.'',
       rtype = S ''success'', r_export_data = None\<rparr>,
      no_conversations (S ''s1'' \<mapsto> [])) \<and>
   rtype (fst (clear_conversation_history (no_conversations (S ''s1'' \<mapsto> [])) (S ''s1'')))
     \<noteq> S ''info''"
  by (simp add: clear_conversation_history_def str_nat_0 S_def)

text \<open>
  C5, amended. In the server variant, clearing a session id that is present in the store,
  also one whose history is already empty, empties its history and returns a success
  result that reports the number of entries removed; clearing an id never seen returns the
  informational result "No history to clear." without a count and leaves the store as it
  was, so no entry is created. In the interactive variant, clearing empties the list,
  writes the empty list as the stored history of the user when \<open>chats.json\<close> is absent
  or holds an object and can be written, and reports "Chat history cleared." without a
  count.
\<close>

theorem clear_result:
  "(c cid = Some msgs \<longrightarrow>
      clear_conversation_history c cid =
        (\<lparr>reply = [128465, 65039] @ S '' Cleared '' @ str_nat (length msgs)
                  @ S '' message(s) from your history.'',
          rtype = S ''success'', r_export_data = None\<rparr>,
         c(cid \<mapsto> []))) \<and>
   (c cid = None \<longrightarrow>
      clear_conversation_history c cid =
        (\<lparr>reply = [128237] @ S '' No history to clear.'', rtype = S ''info'',
          r_export_data = None\<rparr>, c)) \<and>
   get_msgs (snd (clear_conversation_history c cid)) cid = [] \<and>
   (handle_command_clear env uid st = Inr st' \<longrightarrow>
      cl_messages st' = [] \<and>
      last (cl_out st') = colored ([10003] @ S ''  '' @ S ''Chat history cleared.'') GREEN) \<and>
   (cl_files st (CHATS_FILE env) = None \<and> can_write env (CHATS_FILE env) \<longrightarrow>
      handle_command_clear env uid st =
        Inr (st\<lparr>cl_messages := [],
                cl_files := (cl_files st)(CHATS_FILE env \<mapsto> JsonFile (JObject [(uid, JArray [])])),
                cl_out := cl_out st
                  @ [colored ([10003] @ S ''  '' @ S ''Chat history cleared.'') GREEN]\<rparr>)) \<and>
   (cl_files st (CHATS_FILE env) = Some (JsonFile (JObject kvs)) \<and>
    can_read env (CHATS_FILE env) \<and> can_write env (CHATS_FILE env) \<longrightarrow>
      handle_command_clear env uid st =
        Inr (st\<lparr>cl_messages := [],
                cl_files := (cl_files st)
                  (CHATS_FILE env \<mapsto> JsonFile (JObject (dict_set kvs uid (JArray [])))),
                cl_out := cl_out st
                  @ [colored ([10003] @ S ''  '' @ S ''Chat history cleared.'') GREEN]\<rparr>))"
proof (intro conjI impI)
  show "clear_conversation_history c cid =
        (\<lparr>reply = [128465, 65039] @ S '' Cleared '' @ str_nat (length msgs)
                  @ S '' message(s) from your history.'',
          rtype = S ''success'', r_export_data = None\<rparr>,
         c(cid \<mapsto> []))" if "c cid = Some msgs"
    using that by (simp add: clear_conversation_history_def)
  show "clear_conversation_history c cid =
        (\<lparr>reply = [128237] @ S '' No history to clear.'', rtype = S ''info'',
          r_export_data = None\<rparr>, c)" if "c cid = None"
    using that by (simp add: clear_conversation_history_def)
  show "get_msgs (snd (clear_conversation_history c cid)) cid = []"
    by (cases "c cid") (simp_all add: clear_conversation_history_def get_msgs_def)
next
  assume h: "handle_command_clear env uid st = Inr st'"
  then obtain st2 where
    s: "save_user_chat env uid [] (st\<lparr>cl_messages := []\<rparr>) = Inr st2"
    and st': "st' = print_success (S ''Chat history cleared.'') st2"
    by (auto simp: handle_command_clear_def Let_def split: sum.splits)
  from save_user_chat_messages [OF s] have "cl_messages st2 = []" by simp
  with st' show "cl_messages st' = []"
    by (simp add: print_success_def print_def)
  from st' show "last (cl_out st') = colored ([10003] @ S ''  '' @ S ''Chat history cleared.'') GREEN"
    by (simp add: print_success_def print_def)
next
  assume "cl_files st (CHATS_FILE env) = None \<and> can_write env (CHATS_FILE env)"
  then show "handle_command_clear env uid st =
        Inr (st\<lparr>cl_messages := [],
                cl_files := (cl_files st)(CHATS_FILE env \<mapsto> JsonFile (JObject [(uid, JArray [])])),
                cl_out := cl_out st
                  @ [colored ([10003] @ S ''  '' @ S ''Chat history cleared.'') GREEN]\<rparr>)"
    by (simp add: handle_command_clear_def save_user_chat_def read_all_chats_def
        write_all_chats_def dict_set_def print_success_def print_def Let_def)
next
  assume "cl_files st (CHATS_FILE env) = Some (JsonFile (JObject kvs)) \<and>
    can_read env (CHATS_FILE env) \<and> can_write env (CHATS_FILE env)"
  then show "handle_command_clear env uid st =
        Inr (st\<lparr>cl_messages := [],
                cl_files := (cl_files st)
                  (CHATS_FILE env \<mapsto> JsonFile (JObject (dict_set kvs uid (JArray [])))),
                cl_out := cl_out st
                  @ [colored ([10003] @ S ''  '' @ S ''Chat history cleared.'') GREEN]\<rparr>)"
    by (simp add: handle_command_clear_def save_user_chat_def read_all_chats_def
        write_all_chats_def print_success_def print_def Let_def)
qed



theorem clear_result_witness:
  "clear_conversation_history
     (Map.empty (S ''s1'' \<mapsto> [\<lparr>msg_id = S ''a'', role = S ''user'', message = S ''hi'',
                                  timestamp = S ''11:59 AM''\<rparr>])) (S ''s1'') =
     (\<lparr>reply = [128465, 65039] @ S '' Cleared '' @ S ''1'' @ S '' message(s) from your history.'',
       rtype = S ''success'', r_export_data = None\<rparr>,
      Map.empty (S ''s1'' \<mapsto> [])) \<and>
   clear_conversation_history Map.empty (S ''s1'') =
     (\<lparr>reply = [128237] @ S '' No history to clear.'', rtype = S ''info'',
       r_export_data = None\<rparr>, Map.empty) \<and>
   (\<exists>st'. handle_command_clear example_cli_env (S ''bob'')
             \<lparr>cl_messages = [cli_entry (S ''1'') (S ''me'') (S ''hi'') (S ''t'')],
              cl_files = Map.empty, cl_out = []\<rparr> = Inr st' \<and>
          cl_messages st' = [] \<and>
          last (cl_out st') = colored ([10003] @ S ''  '' @ S ''Chat history cleared.'') GREEN) \<and>
   cl_files (projr (handle_command_clear example_cli_env (S ''bob'')
      \<lparr>cl_messages = [cli_entry (S ''1'') (S ''me'') (S ''hi'') (S ''t'')],
       cl_files = Map.empty (CHATS_FILE example_cli_env \<mapsto>
          JsonFile (JObject [(S ''bob'', JArray [cli_entry (S ''1'') (S ''me'') (S ''hi'') (S ''t'')])])),
       cl_out = []\<rparr>)) (CHATS_FILE example_cli_env)
     = Some (JsonFile (JObject [(S ''bob'', JArray [])]))"
proof -
  let ?st6 = "\<lparr>cl_messages = [cli_entry (S ''1'') (S ''me'') (S ''hi'') (S ''t'')],
       cl_files = Map.empty (CHATS_FILE example_cli_env \<mapsto>
          JsonFile (JObject [(S ''bob'', JArray [cli_entry (S ''1'') (S ''me'') (S ''hi'') (S ''t'')])])),
       cl_out = []\<rparr>"
  have h6: "cl_files ?st6 (CHATS_FILE example_cli_env) =
              Some (JsonFile (JObject [(S ''bob'',
                 JArray [cli_entry (S ''1'') (S ''me'') (S ''hi'') (S ''t'')])])) \<and>
            can_read example_cli_env (CHATS_FILE example_cli_env) \<and>
            can_write example_cli_env (CHATS_FILE example_cli_env)"
    by (simp add: example_cli_env_def)
  have ds: "dict_set [(S ''bob'', JArray [cli_entry (S ''1'') (S ''me'') (S ''hi'') (S ''t'')])]
              (S ''bob'') (JArray []) = [(S ''bob'', JArray [])]"
    by (simp add: dict_set_def)
  from h6 clear_result [where env = example_cli_env and uid = "S ''bob''" and st = ?st6
      and kvs = "[(S ''bob'', JArray [cli_entry (S ''1'') (S ''me'') (S ''hi'') (S ''t'')])]"]
  have six: "cl_files (projr (handle_command_clear example_cli_env (S ''bob'') ?st6))
               (CHATS_FILE example_cli_env)
             = Some (JsonFile (JObject [(S ''bob'', JArray [])]))"
    by (simp add: ds)
  let ?m = "\<lparr>msg_id = S ''a'', role = S ''user'', message = S ''hi'', timestamp = S ''11:59 AM''\<rparr>"
  let ?c = "Map.empty (S ''s1'' \<mapsto> [?m])"
  let ?st = "\<lparr>cl_messages = [cli_entry (S ''1'') (S ''me'') (S ''hi'') (S ''t'')],
              cl_files = Map.empty, cl_out = []\<rparr>"
  have one: "str_nat (length [?m]) = S ''1''"
    by (simp add: str_nat.simps [of "Suc 0"] S_def)
  have h1: "?c (S ''s1'') = Some [?m]" by simp
  have h2: "Map.empty (S ''s1'') = (None :: message list option)" by simp
  have h5: "cl_files ?st (CHATS_FILE example_cli_env) = None \<and>
            can_write example_cli_env (CHATS_FILE example_cli_env)"
    by (simp add: example_cli_env_def)
  from h1 clear_result [where c = ?c and cid = "S ''s1''" and msgs = "[?m]"]
  have a: "clear_conversation_history ?c (S ''s1'') =
     (\<lparr>reply = [128465, 65039] @ S '' Cleared '' @ S ''1'' @ S '' message(s) from your history.'',
       rtype = S ''success'', r_export_data = None\<rparr>, Map.empty (S ''s1'' \<mapsto> []))"
    unfolding one by simp
  from h2 clear_result [where c = Map.empty and cid = "S ''s1''"]
  have b: "clear_conversation_history Map.empty (S ''s1'') =
     (\<lparr>reply = [128237] @ S '' No history to clear.'', rtype = S ''info'',
       r_export_data = None\<rparr>, Map.empty)"
    by simp
  from h5 clear_result [where env = example_cli_env and uid = "S ''bob''" and st = ?st]
  obtain st1 where r: "handle_command_clear example_cli_env (S ''bob'') ?st = Inr st1"
    by blast
  from r clear_result [where env = example_cli_env and uid = "S ''bob''" and st = ?st and st' = st1]
  have "cl_messages st1 = [] \<and>
        last (cl_out st1) = colored ([10003] @ S ''  '' @ S ''Chat history cleared.'') GREEN"
    by blast
  with r a b six show ?thesis by blast
qed

section \<open>Properties: search\<close>

lemma py_in_sublist: "py_in p s = sublist p s"
  by (induction s) (simp_all add: sublist_Cons_right)

lemma is_string_entry:
  "(case x of Some (JString t) \<Rightarrow> True | _ \<Rightarrow> False) = (\<exists>t. x = Some (JString t))"
proof (cases x)
  case None
  then show ?thesis by simp
next
  case (Some v)
  then show ?thesis by (cases v) simp_all
qed

lemma wf_message_dict:
  assumes "wf_message m"
  obtains kvs t ts where "m = JObject kvs" "map_of kvs (S ''text'') = Some (JString t)"
    "map_of kvs (S ''ts'') = Some (JString ts)"
proof (cases m)
  case (JObject kvs)
  with assms have "(\<exists>t. map_of kvs (S ''text'') = Some (JString t)) \<and>
                   (\<exists>t. map_of kvs (S ''ts'') = Some (JString t))"
    by (simp add: wf_message_def is_string_entry)
  with JObject that show ?thesis by blast
qed (insert assms, simp_all add: wf_message_def)

lemma cli_matches_wf:
  assumes "wf_message m"
  shows "cli_matches env ql m = Inr (py_in ql (cl_lower env (text_str m)))"
proof -
  from assms obtain kvs t ts where "m = JObject kvs" "map_of kvs (S ''text'') = Some (JString t)"
    by (rule wf_message_dict)
  then show ?thesis
    by (simp add: cli_matches_def msg_get_def text_str_def text_of_def)
qed

lemma filter_raising_wf:
  "list_all wf_message ms \<Longrightarrow>
   filter_raising (cli_matches env ql) ms
     = Inr (filter (\<lambda>m. py_in ql (cl_lower env (text_str m))) ms)"
  by (induction ms) (simp_all add: cli_matches_wf)

lemma search_result_line_wf:
  assumes "wf_message m"
  shows "search_result_line m = Inr (shown_line m)"
proof -
  from assms obtain kvs t ts where "m = JObject kvs" "map_of kvs (S ''text'') = Some (JString t)"
    "map_of kvs (S ''ts'') = Some (JString ts)"
    by (rule wf_message_dict)
  then have "\<exists>l. search_result_line m = Inr l"
    by (simp add: search_result_line_def msg_get_def Let_def)
  then show ?thesis
    by (auto simp: shown_line_def)
qed

lemma print_lines_wf:
  "list_all wf_message ms \<Longrightarrow>
   print_lines search_result_line ms st = Inr (st\<lparr>cl_out := cl_out st @ map shown_line ms\<rparr>)"
proof (induction ms arbitrary: st)
  case Nil
  then show ?case by simp
next
  case (Cons m ms)
  then have "wf_message m" "list_all wf_message ms" by simp_all
  with Cons.IH [of "print (shown_line m) st"] show ?case
    by (simp add: search_result_line_wf print_def)
qed

lemma list_all_last_n: "list_all P xs \<Longrightarrow> list_all P (last_n k xs)"
  by (auto simp: last_n_def list_all_iff dest: in_set_dropD)

lemma list_all_filter: "list_all P xs \<Longrightarrow> list_all P (filter Q xs)"
  by (auto simp: list_all_iff)


lemma search_conversation_eq:
  "search_conversation e c cid q =
     (let msgs = get_msgs c cid;
          results = filter (\<lambda>m. sublist (lower e q) (lower e (message m))) msgs
      in if msgs = [] then info ([128269] @ S '' No messages to search.'')
         else if results = [] then
           info ([128269] @ S '' No messages found matching '' @ [34] @ q @ [34])
         else
           info (py_join [10]
                  (([128269] @ S '' **Found '' @ str_nat (length results)
                    @ S '' message(s) matching '' @ [34] @ q @ [34] @ S '':**'' @ [10])
                   # map search_line (last_n 5 results))))"
proof -
  have "search_matches e q = (\<lambda>m. sublist (lower e q) (lower e (message m)))"
    by (intro ext) (simp add: search_matches_def py_in_sublist)
  then show ?thesis
    by (simp add: search_conversation_def info_def Let_def)
qed

lemma handle_search_eq:
  assumes "q \<noteq> []" and "list_all wf_message (cl_messages st)"
  shows "handle_search env q st =
     (let results = filter (\<lambda>m. sublist (cl_lower env q) (cl_lower env (text_str m)))
                      (cl_messages st)
      in if results = [] then
           Inr (print_info (S ''No messages found matching '' @ [39] @ q @ [39]) st)
         else
           (let st2 = print_info (S ''Found '' @ str_nat (length results) @ S '' message(s)'')
                        (print_header (S ''Search Results for '' @ [39] @ q @ [39]) st)
            in Inr (st2\<lparr>cl_out := cl_out st2 @ map shown_line (last_n 20 results)\<rparr>)))"
proof -
  let ?res = "filter (\<lambda>m. sublist (cl_lower env q) (cl_lower env (text_str m))) (cl_messages st)"
  have f: "filter_raising (cli_matches env (cl_lower env q)) (cl_messages st) = Inr ?res"
    by (simp add: filter_raising_wf [OF assms(2)] py_in_sublist)
  have "list_all wf_message (last_n 20 ?res)"
    by (intro list_all_last_n list_all_filter assms(2))
  note p = print_lines_wf [OF this]
  show ?thesis
    using assms(1) by (simp add: handle_search_def f p Let_def)
qed

lemma wf_cli_entry: "wf_message (cli_entry i who txt ts)"
  by (simp add: wf_message_def cli_entry_def S_def)

lemma text_str_cli_entry: "text_str (cli_entry i who txt ts) = txt"
  by (simp add: text_str_def text_of_def cli_entry_def S_def)

lemma shown_line_cli_entry:
  "shown_line (cli_entry i who txt ts) =
     colored (S ''['' @ ts @ S '']'') YELLOW @ S '' ''
     @ colored ((if who \<in> {S ''me'', S ''user'', S ''you''} then S ''You'' else S ''Bot'')
                @ S '':'') BOLD
     @ S '' '' @ txt"
  by (simp add: shown_line_def search_result_line_def msg_get_def cli_entry_def S_def)

text \<open>
  What the two searches do. The server keeps entries that \<open>save_message\<close> built, whose
  fields are strings: for every such history the reply has the type \<open>info\<close> and shows the
  last five of the entries whose lowered text contains the lowered query, in the order
  of the history, each as \<open>\<bullet> **[timestamp] You|Bot:** text\<close> with a text of more
  than 80 characters cut to 77 and \<open>...\<close>.
\<close>

lemma search_conversation_last_five:
  "(let msgs = get_msgs c cid;
        results = filter (\<lambda>m. sublist (lower e q) (lower e (message m))) msgs;
        shown = drop (length results - 5) results
    in search_conversation e c cid q =
         \<lparr>reply =
            (if msgs = [] then [128269] @ S '' No messages to search.''
             else if results = [] then
               [128269] @ S '' No messages found matching '' @ [34] @ q @ [34]
             else
               py_join [10]
                 (([128269] @ S '' **Found '' @ str_nat (length results)
                   @ S '' message(s) matching '' @ [34] @ q @ [34] @ S '':**'' @ [10])
                  # map (\<lambda>msg. [8226] @ S '' **['' @ timestamp msg @ S ''] ''
                              @ (if role msg = S ''user'' then S ''You'' else S ''Bot'')
                              @ S '':** ''
                              @ (if length (message msg) > 80
                                 then take 77 (message msg) @ S ''...'' else message msg))
                      shown)),
          rtype = S ''info'', r_export_data = None\<rparr> \<and>
       length shown = min 5 (length results) \<and> suffix shown results \<and> subseq results msgs)"
proof -
  have sl: "search_line = (\<lambda>msg. [8226] @ S '' **['' @ timestamp msg @ S ''] ''
                              @ (if role msg = S ''user'' then S ''You'' else S ''Bot'')
                              @ S '':** ''
                              @ (if length (message msg) > 80
                                 then take 77 (message msg) @ S ''...'' else message msg))"
    by (intro ext) (simp add: search_line_def truncate_text_def Let_def)
  show ?thesis
    unfolding search_conversation_eq sl last_n_def Let_def info_def
    by (auto simp: suffix_drop)
qed

text \<open>
  The interactive variant, on a history whose entries are as its main loop appends them
  (\<open>id\<close>, \<open>who\<close>, \<open>text\<close> and \<open>ts\<close>, all strings) and for a non-empty query: it prints an
  informational line when nothing matches, and otherwise the header, the count and one
  line \<open>[ts] You|Bot: text\<close> for each of the last twenty matches, in the order of the
  history.
\<close>

lemma handle_search_last_twenty:
  assumes "q \<noteq> []"
    and "cl_messages st = map (\<lambda>(i, who, txt, ts). cli_entry i who txt ts) es"
  shows
  "(let results = filter (\<lambda>(i, who, txt, ts). sublist (cl_lower env q) (cl_lower env txt)) es;
        shown = drop (length results - 20) results;
        st2 = print_info (S ''Found '' @ str_nat (length results) @ S '' message(s)'')
                (print_header (S ''Search Results for '' @ [39] @ q @ [39]) st)
    in handle_search env q st =
         Inr (if results = [] then
                print_info (S ''No messages found matching '' @ [39] @ q @ [39]) st
              else
                st2\<lparr>cl_out := cl_out st2 @
                  map (\<lambda>(i, who, txt, ts).
                         colored (S ''['' @ ts @ S '']'') YELLOW @ S '' ''
                         @ colored ((if who \<in> {S ''me'', S ''user'', S ''you''}
                                     then S ''You'' else S ''Bot'') @ S '':'') BOLD
                         @ S '' '' @ txt) shown\<rparr>) \<and>
       length shown = min 20 (length results) \<and> suffix shown results \<and> subseq results es)"
proof -
  let ?f = "\<lambda>(i, who, txt, ts). cli_entry i who txt ts"
  let ?res = "filter (\<lambda>(i, who, txt, ts). sublist (cl_lower env q) (cl_lower env txt)) es"
  have wf: "list_all wf_message (cl_messages st)"
    unfolding assms(2) by (auto simp: list_all_iff wf_cli_entry)
  have fl: "filter (\<lambda>m. sublist (cl_lower env q) (cl_lower env (text_str m))) (cl_messages st)
            = map ?f ?res"
    unfolding assms(2) filter_map
    by (rule arg_cong [where f = "map ?f"], rule filter_cong)
       (auto simp: text_str_cli_entry)
  have ln: "last_n 20 (map ?f ?res) = map ?f (drop (length ?res - 20) ?res)"
    by (simp add: last_n_def drop_map)
  have sh: "map shown_line (map ?f xs) =
            map (\<lambda>(i, who, txt, ts).
                         colored (S ''['' @ ts @ S '']'') YELLOW @ S '' ''
                         @ colored ((if who \<in> {S ''me'', S ''user'', S ''you''}
                                     then S ''You'' else S ''Bot'') @ S '':'') BOLD
                         @ S '' '' @ txt) xs" for xs
    by (induction xs) (auto simp: shown_line_cli_entry)
  show ?thesis
    unfolding handle_search_eq [OF assms(1) wf] fl ln sh Let_def
    by (auto simp: suffix_drop min_def)
qed

text \<open>
  C7. For every history and non-empty query, search is to show the last \<open>K\<close> matches or,
  when nothing matches, an informational reply. The interactive variant does not do so
  on a history that its own \<open>/import\<close> builds. \<open>/import\<close> keeps every entry of the file
  that is a dict with a key \<open>text\<close>, whatever the value: imported into an empty history,
  a file holding \<open>[{"text": null}]\<close> is accepted and makes the history
  \<open>[{"text": null}]\<close>. On that history \<open>/search a\<close> gives neither matches nor an
  informational line: \<open>msg.get('text', '')\<close> is \<open>None\<close>, the default standing in for a
  missing key only, and \<open>.lower()\<close> raises AttributeError, which \<open>handle_search\<close> does not
  catch.
\<close>

theorem search_null_text_raises:
  "fst (handle_import example_cli_env (S ''u1'') (S ''in.json'')
          \<lparr>cl_messages = [],
           cl_files = no_files(S ''in.json'' \<mapsto> JsonFile (JArray [JObject [(S ''text'', JNull)]])),
           cl_out = []\<rparr>) = True \<and>
   cl_messages (snd (handle_import example_cli_env (S ''u1'') (S ''in.json'')
          \<lparr>cl_messages = [],
           cl_files = no_files(S ''in.json'' \<mapsto> JsonFile (JArray [JObject [(S ''text'', JNull)]])),
           cl_out = []\<rparr>)) = [JObject [(S ''text'', JNull)]] \<and>
   handle_search example_cli_env (S ''a'')
     (snd (handle_import example_cli_env (S ''u1'') (S ''in.json'')
          \<lparr>cl_messages = [],
           cl_files = no_files(S ''in.json'' \<mapsto> JsonFile (JArray [JObject [(S ''text'', JNull)]])),
           cl_out = []\<rparr>)) = Inl (AttributeError (S ''lower'')) \<and>
   handle_search example_cli_env (S ''a'')
     \<lparr>cl_messages = [JObject [(S ''text'', JNull)]], cl_files = no_files, cl_out = []\<rparr>
     = Inl (AttributeError (S ''lower''))"
proof -
  let ?st = "\<lparr>cl_messages = [],
           cl_files = no_files(S ''in.json'' \<mapsto> JsonFile (JArray [JObject [(S ''text'', JNull)]])),
           cl_out = []\<rparr>"
  have ne: "S ''a'' \<noteq> []" "S ''in.json'' \<noteq> []"
    by (simp_all add: S_def)
  have v: "valid_message (JObject [(S ''text'', JNull)])"
    by (simp add: valid_message_def)
  have nf: "S ''in.json'' \<noteq> CHATS_FILE example_cli_env"
    by (simp add: CHATS_FILE_def example_cli_env_def S_def)
  let ?st1 = "\<lparr>cl_messages = [JObject [(S ''text'', JNull)]],
           cl_files = no_files(S ''in.json'' \<mapsto> JsonFile (JArray [JObject [(S ''text'', JNull)]])),
           cl_out = []\<rparr>"
  have cr: "can_read example_cli_env (S ''in.json'')"
    and cw: "can_write example_cli_env (CHATS_FILE example_cli_env)"
    by (simp_all add: example_cli_env_def)
  have rd: "read_all_chats example_cli_env ?st1 = (JObject [], ?st1)"
    using nf by (simp add: read_all_chats_def no_files_def)
  have su: "save_user_chat example_cli_env (S ''u1'') [JObject [(S ''text'', JNull)]] ?st1
            = Inr (write_all_chats example_cli_env
                     (JObject [(S ''u1'', JArray [JObject [(S ''text'', JNull)]])]) ?st1)"
    by (simp add: save_user_chat_def rd dict_set_def)
  have imp: "fst (handle_import example_cli_env (S ''u1'') (S ''in.json'') ?st) = True \<and>
        cl_messages (snd (handle_import example_cli_env (S ''u1'') (S ''in.json'') ?st))
          = [JObject [(S ''text'', JNull)]]"
    using ne(2) v cr cw
    by (simp add: handle_import_def su write_all_chats_def
          print_success_def print_def Let_def)
  have s: "handle_search example_cli_env (S ''a'') x = Inl (AttributeError (S ''lower''))"
    if "cl_messages x = [JObject [(S ''text'', JNull)]]" for x
    using ne(1) that by (simp add: handle_search_def cli_matches_def msg_get_def Let_def)
  from imp s show ?thesis
    by simp
qed

section \<open>Properties: export and import\<close>

lemma export_path_nonempty: "export_path env uid \<noteq> []"
  by (simp add: export_path_def S_def)

lemma handle_export_ok:
  assumes "cl_messages st \<noteq> []" "mkdir_error env = None" "can_write env (export_path env uid)"
  shows "handle_export env uid st =
     Inr (print_success (S ''Chat exported to: '' @ export_path env uid)
            (st\<lparr>cl_files := (cl_files st)(export_path env uid \<mapsto>
                                  JsonFile (JArray (cl_messages st)))\<rparr>))"
  using assms by (simp add: handle_export_def Let_def)

lemma print_messages [simp]:
  "cl_messages (print x st) = cl_messages st"
  "cl_messages (print_error x st) = cl_messages st"
  "cl_messages (print_success x st) = cl_messages st"
  "cl_messages (print_info x st) = cl_messages st"
  by (simp_all add: print_def print_error_def print_success_def print_info_def)

lemma print_files [simp]:
  "cl_files (print x st) = cl_files st"
  "cl_files (print_error x st) = cl_files st"
  "cl_files (print_success x st) = cl_files st"
  "cl_files (print_info x st) = cl_files st"
  by (simp_all add: print_def print_error_def print_success_def print_info_def)

lemma handle_import_messages:
  assumes f: "cl_files st p = Some (JsonFile (JArray data))"
    and p: "p \<noteq> []" and r: "can_read env p"
  shows "cl_messages (snd (handle_import env uid p st)) = cl_messages st @ filter valid_message data"
proof (cases "filter valid_message data = []")
  case True
  with f p r show ?thesis
    by (simp add: handle_import_def Let_def)
next
  case False
  let ?st1 = "st\<lparr>cl_messages := cl_messages st @ filter valid_message data\<rparr>"
  show ?thesis
  proof (cases "save_user_chat env uid (cl_messages ?st1) ?st1")
    case (Inl err)
    with f p r False show ?thesis
      by (simp add: handle_import_def Let_def)
  next
    case (Inr st2)
    from save_user_chat_messages [OF Inr] have "cl_messages st2 = cl_messages ?st1" .
    with f p r False Inr show ?thesis
      by (simp add: handle_import_def Let_def)
  qed
qed

text \<open>
  C9, as the claim states it, fails: \<open>handle_import\<close> extends the current list, so after
  exporting a session that holds the one text \<open>hi\<close> and importing the file into that same
  session, the history holds \<open>hi\<close> twice.
\<close>

theorem export_import_doubles_counterexample:
  "map_option history_texts
     (export_then_import example_cli_env (S ''bob'')
        \<lparr>cl_messages = [cli_entry (S ''1'') (S ''me'') (S ''hi'') (S ''t1'')],
         cl_files = no_files, cl_out = []\<rparr>)
   = Some [JString (S ''hi''), JString (S ''hi'')] \<and>
   map text_of [cli_entry (S ''1'') (S ''me'') (S ''hi'') (S ''t1'')] = [JString (S ''hi'')] \<and>
   map_option history_texts
     (export_then_import example_cli_env (S ''bob'')
        \<lparr>cl_messages = [cli_entry (S ''1'') (S ''me'') (S ''hi'') (S ''t1'')],
         cl_files = no_files, cl_out = []\<rparr>)
   \<noteq> Some (map text_of [cli_entry (S ''1'') (S ''me'') (S ''hi'') (S ''t1'')])"
proof -
  let ?j = "cli_entry (S ''1'') (S ''me'') (S ''hi'') (S ''t1'')"
  let ?st = "\<lparr>cl_messages = [?j], cl_files = no_files, cl_out = []\<rparr>"
  let ?p = "export_path example_cli_env (S ''bob'')"
  let ?st1 = "print_success (S ''Chat exported to: '' @ ?p)
            (?st\<lparr>cl_files := (cl_files ?st)(?p \<mapsto> JsonFile (JArray (cl_messages ?st)))\<rparr>)"
  have e: "handle_export example_cli_env (S ''bob'') ?st = Inr ?st1"
    by (rule handle_export_ok) (simp_all add: example_cli_env_def)
  have f: "cl_files ?st1 ?p = Some (JsonFile (JArray [?j]))"
    by simp
  have r: "can_read example_cli_env ?p"
    by (simp add: example_cli_env_def)
  have v: "valid_message ?j"
    by (simp add: valid_message_def cli_entry_def S_def)
  have t: "text_of ?j = JString (S ''hi'')"
    by (simp add: text_of_def cli_entry_def S_def)
  from handle_import_messages [OF f export_path_nonempty r, of "S ''bob''"] v
  have "cl_messages (snd (handle_import example_cli_env (S ''bob'') ?p ?st1)) = [?j, ?j]"
    by simp
  then show ?thesis
    by (simp add: export_then_import_def history_texts_def e t)
qed


text \<open>
  C9, amended. When the export succeeds, the file holds the whole message list, and an
  import of that file appends to the history held at that moment, in order, the exported
  entries that are dicts with a \<open>text\<close> key. Imported into the session that was exported
  the history afterwards is the old one followed by those entries; imported into a state
  with an empty history (a new user, or after clearing) it is exactly those entries.
\<close>

theorem export_then_import_appends:
  "cl_messages st \<noteq> [] \<and> mkdir_error env = None \<and>
   can_write env (export_path env uid) \<and> can_read env (export_path env uid) \<longrightarrow>
     (\<exists>st1. handle_export env uid st = Inr st1 \<and>
         cl_messages st1 = cl_messages st \<and>
         cl_files st1 (export_path env uid) = Some (JsonFile (JArray (cl_messages st))) \<and>
         cl_messages (snd (handle_import env uid (export_path env uid) st1))
           = cl_messages st @ filter valid_message (cl_messages st) \<and>
         (\<forall>st'. cl_files st' (export_path env uid) = cl_files st1 (export_path env uid) \<longrightarrow>
            cl_messages (snd (handle_import env uid (export_path env uid) st'))
              = cl_messages st' @ filter valid_message (cl_messages st)))"
proof
  let ?p = "export_path env uid"
  assume h: "cl_messages st \<noteq> [] \<and> mkdir_error env = None \<and> can_write env ?p \<and> can_read env ?p"
  let ?st1 = "print_success (S ''Chat exported to: '' @ ?p)
            (st\<lparr>cl_files := (cl_files st)(?p \<mapsto> JsonFile (JArray (cl_messages st)))\<rparr>)"
  from h have e: "handle_export env uid st = Inr ?st1"
    by (intro handle_export_ok) simp_all
  have m: "cl_messages ?st1 = cl_messages st" by simp
  have f: "cl_files ?st1 ?p = Some (JsonFile (JArray (cl_messages st)))" by simp
  from h have r: "can_read env ?p" by simp
  have imp: "cl_messages (snd (handle_import env uid ?p st'))
              = cl_messages st' @ filter valid_message (cl_messages st)"
    if "cl_files st' ?p = cl_files ?st1 ?p" for st'
  proof -
    from that f have "cl_files st' ?p = Some (JsonFile (JArray (cl_messages st)))" by simp
    from handle_import_messages [OF this export_path_nonempty r] show ?thesis .
  qed
  from imp [of ?st1] m
  have "cl_messages (snd (handle_import env uid ?p ?st1))
           = cl_messages st @ filter valid_message (cl_messages st)"
    by simp
  with e m f imp
  show "\<exists>st1. handle_export env uid st = Inr st1 \<and>
         cl_messages st1 = cl_messages st \<and>
         cl_files st1 ?p = Some (JsonFile (JArray (cl_messages st))) \<and>
         cl_messages (snd (handle_import env uid ?p st1))
           = cl_messages st @ filter valid_message (cl_messages st) \<and>
         (\<forall>st'. cl_files st' ?p = cl_files st1 ?p \<longrightarrow>
            cl_messages (snd (handle_import env uid ?p st'))
              = cl_messages st' @ filter valid_message (cl_messages st))"
    by blast
qed



theorem export_then_import_appends_witness:
  "cl_messages \<lparr>cl_messages = [cli_entry (S ''1'') (S ''me'') (S ''hi'') (S ''t1'')],
                cl_files = Map.empty, cl_out = []\<rparr> \<noteq> [] \<and>
   mkdir_error example_cli_env = None \<and>
   can_write example_cli_env (export_path example_cli_env (S ''bob'')) \<and>
   can_read example_cli_env (export_path example_cli_env (S ''bob'')) \<and>
   (\<exists>st1. handle_export example_cli_env (S ''bob'')
            \<lparr>cl_messages = [cli_entry (S ''1'') (S ''me'') (S ''hi'') (S ''t1'')],
             cl_files = Map.empty, cl_out = []\<rparr> = Inr st1 \<and>
      cl_messages (snd (handle_import example_cli_env (S ''bob'')
            (export_path example_cli_env (S ''bob'')) (st1\<lparr>cl_messages := []\<rparr>)))
        = [cli_entry (S ''1'') (S ''me'') (S ''hi'') (S ''t1'')] \<and>
      cl_messages (snd (handle_import example_cli_env (S ''bob'')
            (export_path example_cli_env (S ''bob'')) st1))
        = [cli_entry (S ''1'') (S ''me'') (S ''hi'') (S ''t1''),
           cli_entry (S ''1'') (S ''me'') (S ''hi'') (S ''t1'')])"
proof -
  let ?j = "cli_entry (S ''1'') (S ''me'') (S ''hi'') (S ''t1'')"
  let ?st = "\<lparr>cl_messages = [?j], cl_files = Map.empty, cl_out = []\<rparr>"
  let ?p = "export_path example_cli_env (S ''bob'')"
  have h: "cl_messages ?st \<noteq> [] \<and> mkdir_error example_cli_env = None \<and>
           can_write example_cli_env ?p \<and> can_read example_cli_env ?p"
    by (simp add: example_cli_env_def)
  have v: "valid_message ?j"
    by (simp add: valid_message_def cli_entry_def S_def)
  from h export_then_import_appends [of ?st example_cli_env "S ''bob''"]
  obtain st1 where s: "handle_export example_cli_env (S ''bob'') ?st = Inr st1"
    and dbl: "cl_messages (snd (handle_import example_cli_env (S ''bob'') ?p st1))
               = cl_messages ?st @ filter valid_message (cl_messages ?st)"
    and any: "\<forall>st'. cl_files st' ?p = cl_files st1 ?p \<longrightarrow>
            cl_messages (snd (handle_import example_cli_env (S ''bob'') ?p st'))
              = cl_messages st' @ filter valid_message (cl_messages ?st)"
    by blast
  have "cl_files (st1\<lparr>cl_messages := []\<rparr>) ?p = cl_files st1 ?p" by simp
  with any have "cl_messages (snd (handle_import example_cli_env (S ''bob'') ?p
                    (st1\<lparr>cl_messages := []\<rparr>)))
                 = cl_messages (st1\<lparr>cl_messages := []\<rparr>) @ filter valid_message (cl_messages ?st)"
    by blast
  then have one: "cl_messages (snd (handle_import example_cli_env (S ''bob'') ?p
                    (st1\<lparr>cl_messages := []\<rparr>))) = [?j]"
    by (simp add: v)
  from dbl have two: "cl_messages (snd (handle_import example_cli_env (S ''bob'') ?p st1)) = [?j, ?j]"
    by (simp add: v)
  from h s one two show ?thesis by blast
qed

end
